theory Spec2Isabelle
  imports Complex_Main "HOL-Library.Sublist"
begin

section \<open>JavaScript values\<close>

text \<open>
  The services are JavaScript. Values are modelled as a tree of the kinds of value the code
  handles: what \<open>JSON.parse\<close> produces, plus \<open>undefined\<close> and the non-finite
  numbers, which callers can pass in. A finite number is its real value (the code only
  compares numbers, it never computes with them).
\<close>

datatype jsnum = Finite real | NaN | PosInfinity | NegInfinity

datatype jsval =
    JUndefined
  | JNull
  | JBool bool
  | JNum jsnum
  | JStr string
  | JArr "jsval list"
  | JObj "(string \<times> jsval) list"

text \<open>Errors are values. \<open>message\<close> is the \<open>.message\<close> property.\<close>

datatype js_error = Error string | TypeError string | SyntaxError string

fun message :: "js_error \<Rightarrow> string" where
  "message (Error m) = m"
| "message (TypeError m) = m"
| "message (SyntaxError m) = m"

text \<open>ToBoolean, as used by \<open>if (x)\<close>, \<open>!x\<close>, \<open>x || y\<close> and \<open>x && y\<close>.\<close>

fun truthy :: "jsval \<Rightarrow> bool" where
  "truthy JUndefined = False"
| "truthy JNull = False"
| "truthy (JBool b) = b"
| "truthy (JNum (Finite r)) = (r \<noteq> 0)"
| "truthy (JNum NaN) = False"
| "truthy (JNum PosInfinity) = True"
| "truthy (JNum NegInfinity) = True"
| "truthy (JStr s) = (s \<noteq> [])"
| "truthy (JArr xs) = True"
| "truthy (JObj kvs) = True"

text \<open>The relational operator \<open><\<close> on two numbers: every comparison with NaN is false.\<close>

fun num_less :: "jsnum \<Rightarrow> jsnum \<Rightarrow> bool" where
  "num_less NaN y = False"
| "num_less x NaN = False"
| "num_less (Finite a) (Finite b) = (a < b)"
| "num_less (Finite a) PosInfinity = True"
| "num_less (Finite a) NegInfinity = False"
| "num_less NegInfinity NegInfinity = False"
| "num_less NegInfinity y = True"
| "num_less PosInfinity y = False"

text \<open>
  Property read \<open>v.k\<close> for the property names the services use. Reading a property of
  \<open>null\<close> or \<open>undefined\<close> throws a TypeError; a primitive or an array has none of the
  names used except \<open>length\<close>. An object lists each of its keys once.
\<close>

fun getProp :: "jsval \<Rightarrow> string \<Rightarrow> js_error + jsval" where
  "getProp JUndefined k =
     Inl (TypeError (''Cannot read properties of undefined (reading '' @ k @ '')''))"
| "getProp JNull k =
     Inl (TypeError (''Cannot read properties of null (reading '' @ k @ '')''))"
| "getProp (JObj kvs) k = Inr (case map_of kvs k of Some v \<Rightarrow> v | None \<Rightarrow> JUndefined)"
| "getProp (JStr s) k =
     Inr (if k = ''length'' then JNum (Finite (real (length s))) else JUndefined)"
| "getProp (JArr xs) k =
     Inr (if k = ''length'' then JNum (Finite (real (length xs))) else JUndefined)"
| "getProp (JBool b) k = Inr JUndefined"
| "getProp (JNum n) k = Inr JUndefined"

text \<open>\<open>String.prototype.includes\<close>: the pattern occurs as a contiguous run.\<close>

fun str_includes :: "string \<Rightarrow> string \<Rightarrow> bool" where
  "str_includes [] p = (p = [])"
| "str_includes (c # cs) p = (prefix p (c # cs) \<or> str_includes cs p)"

text \<open>Decimal digits of a natural number, as a template literal prints an HTTP status.\<close>

function show_nat :: "nat \<Rightarrow> string" where
  "show_nat n =
     (if n < 10 then [''0123456789'' ! n]
      else show_nat (n div 10) @ [''0123456789'' ! (n mod 10)])"
  by pat_completeness auto
termination
  by (relation "measure id") auto

section \<open>The world outside the services\<close>

text \<open>
  One HTTP request as handed to \<open>fetch\<close>. The body is kept as the value that
  \<open>JSON.stringify\<close> is applied to (\<open>None\<close> when \<open>options.body\<close> is falsy and
  nothing is serialised).
\<close>

record request =
  url :: string
  rmethod :: string
  rheaders :: "(string \<times> string) list"
  rbody :: "jsval option"

text \<open>
  What \<open>fetch\<close> does with a request: it rejects, or it resolves to a response with a
  status and a body. The body is the outcome of \<open>response.json()\<close>, which rejects when
  the body is not JSON.
\<close>

datatype fetch_outcome =
    FetchRejects js_error
  | Response nat "js_error + jsval"

text \<open>
  The environment is a parameter of every operation: the server, the clock and the built-in
  conversions of the JavaScript runtime that the code relies on.
  \<^item> \<open>fetch\<close>: the outcome of the newest request, given all requests sent so far in
    order (the newest last);
  \<^item> \<open>clock\<close>: the time value (ms) of the \<open>k\<close>-th \<open>new Date()\<close>;
  \<^item> \<open>expiryISO t\<close>: for a Date \<open>d\<close> with time value \<open>t\<close>, the string
    \<open>d.toISOString()\<close> after \<open>d.setHours(d.getHours() + 24)\<close>;
  \<^item> \<open>parseDate v\<close>: the time value of \<open>new Date(v)\<close>, \<open>None\<close> for an invalid date;
  \<^item> \<open>toStr v\<close>: the string conversion of a value that is not a string already.
\<close>

record env =
  fetch :: "request list \<Rightarrow> fetch_outcome"
  clock :: "nat \<Rightarrow> int"
  expiryISO :: "int \<Rightarrow> string"
  parseDate :: "jsval \<Rightarrow> int option"
  toStr :: "jsval \<Rightarrow> string"

definition js_String :: "env \<Rightarrow> jsval \<Rightarrow> string" where
  "js_String e v = (case v of JStr s \<Rightarrow> s | _ \<Rightarrow> toStr e v)"

section \<open>State of the singletons\<close>

text \<open>
  The three module-level singletons, in one record:
  \<^item> \<open>apiService\<close>: \<open>baseURL\<close>, \<open>token\<close>, \<open>isAuthenticated\<close>;
  \<^item> \<open>storageService\<close>: \<open>memoryStorage\<close>, the JavaScript \<open>Map\<close>;
  \<^item> \<open>enhancedApiService\<close>: \<open>isInitialized\<close>;
  and the trace of the run: \<open>sent\<close>, every request handed to \<open>fetch\<close> in order, and
  \<open>ticks\<close>, the number of \<open>new Date()\<close> evaluated.
\<close>

record state =
  baseURL :: string
  token :: jsval
  isAuthenticated :: bool
  memoryStorage :: "string \<rightharpoonup> jsval"
  isInitialized :: bool
  sent :: "request list"
  ticks :: nat

section \<open>StorageService (in-memory)\<close>

definition key_authToken :: string where "key_authToken = ''gu_auth_token''"
definition key_refreshToken :: string where "key_refreshToken = ''gu_refresh_token''"
definition key_tokenExpiry :: string where "key_tokenExpiry = ''gu_token_expiry''"
definition key_userProfile :: string where "key_userProfile = ''gu_user_profile''"
definition key_userRoles :: string where "key_userRoles = ''gu_user_roles''"
definition key_userPermissions :: string where "key_userPermissions = ''gu_user_permissions''"
definition key_appSettings :: string where "key_appSettings = ''gu_app_settings''"

text \<open>
  \<open>setItem\<close>, \<open>getItem\<close>, \<open>removeItem\<close> and \<open>clear\<close> wrap one \<open>Map\<close> operation in
  \<open>try\<close>/\<open>catch\<close>. The operation cannot throw, so the \<open>catch\<close> branch is never
  taken and the promise always resolves. \<open>getItem\<close> is \<open>get(key) || null\<close>: a stored
  falsy value reads as \<open>null\<close>.
\<close>

definition setItem :: "string \<Rightarrow> jsval \<Rightarrow> state \<Rightarrow> bool \<times> state" where
  "setItem key v s = (True, s\<lparr>memoryStorage := (memoryStorage s)(key \<mapsto> v)\<rparr>)"

definition getItem :: "string \<Rightarrow> state \<Rightarrow> jsval" where
  "getItem key s =
     (case memoryStorage s key of
        None \<Rightarrow> JNull
      | Some v \<Rightarrow> if truthy v then v else JNull)"

definition removeItem :: "string \<Rightarrow> state \<Rightarrow> bool \<times> state" where
  "removeItem key s = (True, s\<lparr>memoryStorage := (memoryStorage s)(key := None)\<rparr>)"

definition clear :: "state \<Rightarrow> bool \<times> state" where
  "clear s = (True, s\<lparr>memoryStorage := Map.empty\<rparr>)"

definition storeAuthToken :: "jsval \<Rightarrow> state \<Rightarrow> bool \<times> state" where
  "storeAuthToken t s = setItem key_authToken t s"

definition getAuthToken :: "state \<Rightarrow> jsval" where
  "getAuthToken s = getItem key_authToken s"

definition removeAuthToken :: "state \<Rightarrow> bool \<times> state" where
  "removeAuthToken s = removeItem key_authToken s"

definition storeRefreshToken :: "jsval \<Rightarrow> state \<Rightarrow> bool \<times> state" where
  "storeRefreshToken t s = setItem key_refreshToken t s"

definition getRefreshToken :: "state \<Rightarrow> jsval" where
  "getRefreshToken s = getItem key_refreshToken s"

definition removeRefreshToken :: "state \<Rightarrow> bool \<times> state" where
  "removeRefreshToken s = removeItem key_refreshToken s"

text \<open>
  \<open>storeTokenExpiry\<close> is only ever called with a Date; the stored value is its ISO
  string, given here by the caller.
\<close>

definition storeTokenExpiry :: "string \<Rightarrow> state \<Rightarrow> bool \<times> state" where
  "storeTokenExpiry expiryTime s = setItem key_tokenExpiry (JStr expiryTime) s"

text \<open>
  \<open>getTokenExpiry\<close>: \<open>None\<close> is \<open>null\<close>; \<open>Some d\<close> is a Date object with time value
  \<open>d\<close> (\<open>None\<close> for an invalid date).
\<close>

definition getTokenExpiry :: "env \<Rightarrow> state \<Rightarrow> int option option" where
  "getTokenExpiry e s =
     (let expiry = getItem key_tokenExpiry s
      in if truthy expiry then Some (parseDate e expiry) else None)"

text \<open>
  \<open>isTokenExpired\<close>: a missing expiry counts as expired; otherwise \<open>new Date() > expiry\<close>,
  which is false for an invalid date. The stored item is read when the method is called;
  \<open>isTokenExpired_resume\<close> is the part after \<open>await this.getTokenExpiry()\<close>.
\<close>

definition isTokenExpired_resume :: "env \<Rightarrow> int option option \<Rightarrow> state \<Rightarrow> bool \<times> state" where
  "isTokenExpired_resume e expiry s =
     (case expiry of
        None \<Rightarrow> (True, s)
      | Some d \<Rightarrow>
          (case d of
             None \<Rightarrow> (False, s\<lparr>ticks := Suc (ticks s)\<rparr>)
           | Some t \<Rightarrow> (t < clock e (ticks s), s\<lparr>ticks := Suc (ticks s)\<rparr>)))"

definition isTokenExpired :: "env \<Rightarrow> state \<Rightarrow> bool \<times> state" where
  "isTokenExpired e s = isTokenExpired_resume e (getTokenExpiry e s) s"

definition storeUserProfile :: "jsval \<Rightarrow> state \<Rightarrow> bool \<times> state" where
  "storeUserProfile profile s = setItem key_userProfile profile s"

definition getUserProfile :: "state \<Rightarrow> jsval" where
  "getUserProfile s = getItem key_userProfile s"

definition removeUserProfile :: "state \<Rightarrow> bool \<times> state" where
  "removeUserProfile s = removeItem key_userProfile s"

definition storeUserRoles :: "jsval \<Rightarrow> state \<Rightarrow> bool \<times> state" where
  "storeUserRoles roles s = setItem key_userRoles roles s"

definition getUserRoles :: "state \<Rightarrow> jsval" where
  "getUserRoles s = getItem key_userRoles s"

definition removeUserRoles :: "state \<Rightarrow> bool \<times> state" where
  "removeUserRoles s = removeItem key_userRoles s"

definition storeUserPermissions :: "jsval \<Rightarrow> state \<Rightarrow> bool \<times> state" where
  "storeUserPermissions permissions s = setItem key_userPermissions permissions s"

definition getUserPermissions :: "state \<Rightarrow> jsval" where
  "getUserPermissions s = getItem key_userPermissions s"

definition removeUserPermissions :: "state \<Rightarrow> bool \<times> state" where
  "removeUserPermissions s = removeItem key_userPermissions s"

text \<open>
  A call \<open>this.name()\<close> looks the method up on the class; calling a name that is not a
  method throws a TypeError at the call itself. A class is given by the table of its
  methods that take no argument.
\<close>

definition call_method ::
  "(string \<Rightarrow> ('s \<Rightarrow> 'r \<times> 's) option) \<Rightarrow> string \<Rightarrow> 's \<Rightarrow> (js_error + 'r) \<times> 's" where
  "call_method methods name s =
     (case methods name of
        None \<Rightarrow> (Inl (TypeError (''this.'' @ name @ '' is not a function'')), s)
      | Some m \<Rightarrow> (case m s of (r, s') \<Rightarrow> (Inr r, s')))"

text \<open>
  An array literal of calls is evaluated left to right, and the first throw abandons the
  rest.
\<close>

fun call_all ::
  "(string \<Rightarrow> ('s \<Rightarrow> 'r \<times> 's) option) \<Rightarrow> string list \<Rightarrow> 's \<Rightarrow> (js_error + 'r list) \<times> 's" where
  "call_all methods [] s = (Inr [], s)"
| "call_all methods (name # names) s =
     (case call_method methods name s of
        (Inl err, s') \<Rightarrow> (Inl err, s')
      | (Inr r, s') \<Rightarrow>
          (case call_all methods names s' of
             (Inl err, s'') \<Rightarrow> (Inl err, s'')
           | (Inr rs, s'') \<Rightarrow> (Inr (r # rs), s'')))"

text \<open>
  These are all the methods of the in-memory \<open>StorageService\<close> that take no argument and
  resolve to a boolean; the class defines no \<open>removeTokenExpiry\<close>. Each of them runs to
  its end when it is called: none awaits anything pending.
\<close>

definition StorageService_method :: "string \<Rightarrow> (state \<Rightarrow> bool \<times> state) option" where
  "StorageService_method name =
     (if name = ''clear'' then Some clear
      else if name = ''removeAuthToken'' then Some removeAuthToken
      else if name = ''removeRefreshToken'' then Some removeRefreshToken
      else if name = ''removeUserProfile'' then Some removeUserProfile
      else if name = ''removeUserRoles'' then Some removeUserRoles
      else if name = ''removeUserPermissions'' then Some removeUserPermissions
      else None)"

text \<open>
  \<open>clearAuthData\<close> builds the array of promises before its \<open>try\<close> block, so a throw
  while building it rejects the returned promise. Once the array is built every promise in
  it is already resolved, \<open>Promise.all\<close> resolves and the result is \<open>true\<close>.
\<close>

definition clearAuthData :: "state \<Rightarrow> (js_error + bool) \<times> state" where
  "clearAuthData s =
     (case call_all StorageService_method
             [''removeAuthToken'', ''removeRefreshToken'', ''removeTokenExpiry'',
              ''removeUserProfile'', ''removeUserRoles'', ''removeUserPermissions''] s of
        (Inl err, s') \<Rightarrow> (Inl err, s')
      | (Inr promises, s') \<Rightarrow> (Inr True, s'))"

text \<open>\<open>isStorageWorking\<close>: a set/get/remove round trip on a throwaway key.\<close>

definition isStorageWorking :: "state \<Rightarrow> bool \<times> state" where
  "isStorageWorking s =
     (case setItem ''storage_test_key'' (JStr ''test_value'') s of
        (setResult, s1) \<Rightarrow>
          if \<not> setResult then (False, s1)
          else if getItem ''storage_test_key'' s1 \<noteq> JStr ''test_value'' then (False, s1)
          else removeItem ''storage_test_key'' s1)"

section \<open>StorageService on SecureStore\<close>

text \<open>
  The other \<open>StorageService\<close> keeps its items in Expo SecureStore. Of it only the
  synchronous start of \<open>clearAuthData\<close> is modelled: \<open>removeItem\<close> checks the availability
  flag and, when it is set, hands the key to \<open>SecureStore.deleteItemAsync\<close> and waits.
  \<open>deleteRequests\<close> lists the keys handed over so far; \<open>True\<close> stands for a promise still
  pending on the deletion, \<open>False\<close> for one already resolved to \<open>false\<close>.
\<close>

record secure_store =
  isSecureStoreAvailable :: bool
  deleteRequests :: "string list"

definition Secure_removeItem :: "string \<Rightarrow> secure_store \<Rightarrow> bool \<times> secure_store" where
  "Secure_removeItem key st =
     (if \<not> isSecureStoreAvailable st then (False, st)
      else (True, st\<lparr>deleteRequests := deleteRequests st @ [key]\<rparr>))"

definition Secure_method :: "string \<Rightarrow> (secure_store \<Rightarrow> bool \<times> secure_store) option" where
  "Secure_method name =
     (if name = ''removeAuthToken'' then Some (Secure_removeItem key_authToken)
      else if name = ''removeRefreshToken'' then Some (Secure_removeItem key_refreshToken)
      else if name = ''removeUserProfile'' then Some (Secure_removeItem key_userProfile)
      else if name = ''removeUserRoles'' then Some (Secure_removeItem key_userRoles)
      else if name = ''removeUserPermissions'' then Some (Secure_removeItem key_userPermissions)
      else None)"

text \<open>
  The array of promises of this \<open>clearAuthData\<close>; had it been built, the method would go
  on to wait for the deletions.
\<close>

definition Secure_clearAuthData_promises ::
  "secure_store \<Rightarrow> (js_error + bool list) \<times> secure_store" where
  "Secure_clearAuthData_promises st =
     call_all Secure_method
       [''removeAuthToken'', ''removeRefreshToken'', ''removeTokenExpiry'',
        ''removeUserProfile'', ''removeUserRoles'', ''removeUserPermissions''] st"

section \<open>ApiService\<close>

text \<open>
  The options object of a request. \<open>http_method\<close> (the \<open>method\<close> option) is \<open>None\<close> when the caller gives none;
  \<open>body\<close> and \<open>requireAuth\<close> are \<open>undefined\<close> when absent.
\<close>

record options =
  http_method :: "string option"
  body :: jsval
  requireAuth :: jsval

definition no_options :: options where
  "no_options = \<lparr>http_method = None, body = JUndefined, requireAuth = JUndefined\<rparr>"

definition post_options :: options where
  "post_options = \<lparr>http_method = Some ''POST'', body = JUndefined, requireAuth = JUndefined\<rparr>"

definition setBaseURL :: "string \<Rightarrow> state \<Rightarrow> state" where
  "setBaseURL u s = s\<lparr>baseURL := u\<rparr>"

definition setToken :: "jsval \<Rightarrow> state \<Rightarrow> state" where
  "setToken t s = s\<lparr>token := t, isAuthenticated := truthy t\<rparr>"

definition clearToken :: "state \<Rightarrow> state" where
  "clearToken s = s\<lparr>token := JNull, isAuthenticated := False\<rparr>"

definition getHeaders :: "env \<Rightarrow> bool \<Rightarrow> state \<Rightarrow> (string \<times> string) list" where
  "getHeaders e includeAuth s =
     [(''Content-Type'', ''application/json''), (''Accept'', ''application/json'')] @
     (if includeAuth \<and> truthy (token s)
      then [(''Authorization'', ''Bearer '' @ js_String e (token s))] else [])"

text \<open>
  \<open>request\<close>, up to and including the call of \<open>fetch\<close>: the request is built from the
  current base URL and token and handed over. \<open>options.requireAuth !== false\<close> holds for
  every value but the boolean \<open>false\<close>.
\<close>

definition build_request :: "env \<Rightarrow> string \<Rightarrow> options \<Rightarrow> state \<Rightarrow> request" where
  "build_request e endpoint opts s =
     \<lparr>url = baseURL s @ endpoint,
      rmethod = (case http_method opts of None \<Rightarrow> ''GET'' | Some m \<Rightarrow> m),
      rheaders = getHeaders e (requireAuth opts \<noteq> JBool False) s,
      rbody = (if truthy (body opts) then Some (body opts) else None)\<rparr>"

definition Api_send :: "env \<Rightarrow> string \<Rightarrow> options \<Rightarrow> state \<Rightarrow> state" where
  "Api_send e endpoint opts s = s\<lparr>sent := sent s @ [build_request e endpoint opts s]\<rparr>"

text \<open>
  \<open>request\<close>, from the outcome of \<open>fetch\<close> on: a rejection of \<open>fetch\<close> or of
  \<open>response.json()\<close> is rethrown; when \<open>response.ok\<close> is false the error thrown is
  \<open>new Error(data.message || `HTTP ${response.status}`)\<close>; otherwise the parsed body is
  returned as it is.
\<close>

definition response_ok :: "nat \<Rightarrow> bool" where
  "response_ok status = (200 \<le> status \<and> status \<le> 299)"

definition Api_receive :: "env \<Rightarrow> fetch_outcome \<Rightarrow> js_error + jsval" where
  "Api_receive e outcome =
     (case outcome of
        FetchRejects err \<Rightarrow> Inl err
      | Response status parsed \<Rightarrow>
          (case parsed of
             Inl err \<Rightarrow> Inl err
           | Inr data \<Rightarrow>
               if response_ok status then Inr data
               else (case getProp data ''message'' of
                       Inl err \<Rightarrow> Inl err
                     | Inr m \<Rightarrow>
                         Inl (Error (if truthy m then js_String e m
                                     else ''HTTP '' @ show_nat status)))))"

definition Api_request ::
  "env \<Rightarrow> string \<Rightarrow> options \<Rightarrow> state \<Rightarrow> (js_error + jsval) \<times> state" where
  "Api_request e endpoint opts s =
     (let s1 = Api_send e endpoint opts s
      in (Api_receive e (fetch e (sent s1)), s1))"

text \<open>
  The value of \<open>response.success && response.data.field\<close>; each property read can throw.
\<close>

definition success_and :: "jsval \<Rightarrow> string \<Rightarrow> js_error + jsval" where
  "success_and response field =
     (case getProp response ''success'' of
        Inl err \<Rightarrow> Inl err
      | Inr ok \<Rightarrow>
          if truthy ok
          then (case getProp response ''data'' of
                  Inl err \<Rightarrow> Inl err
                | Inr d \<Rightarrow> getProp d field)
          else Inr ok)"

text \<open>\<open>logout\<close>: a POST to \<open>/logout\<close>; the token is cleared when the envelope says success.\<close>

definition Api_logout :: "env \<Rightarrow> state \<Rightarrow> (js_error + jsval) \<times> state" where
  "Api_logout e s =
     (case Api_request e ''/logout'' post_options s of
        (Inl err, s1) \<Rightarrow> (Inl err, s1)
      | (Inr response, s1) \<Rightarrow>
          (case getProp response ''success'' of
             Inl err \<Rightarrow> (Inl err, s1)
           | Inr ok \<Rightarrow> (Inr response, if truthy ok then clearToken s1 else s1)))"

text \<open>
  \<open>refreshToken\<close>: a POST to \<open>/refresh\<close>; \<open>Api_refreshToken_resume\<close> is the part that
  runs once the request has settled.
\<close>

definition Api_refreshToken_resume ::
  "js_error + jsval \<Rightarrow> state \<Rightarrow> (js_error + jsval) \<times> state" where
  "Api_refreshToken_resume r s =
     (case r of
        Inl err \<Rightarrow> (Inl err, s)
      | Inr response \<Rightarrow>
          (case success_and response ''token'' of
             Inl err \<Rightarrow> (Inl err, s)
           | Inr t \<Rightarrow> (Inr response, if truthy t then setToken t s else s)))"

definition Api_refreshToken :: "env \<Rightarrow> state \<Rightarrow> (js_error + jsval) \<times> state" where
  "Api_refreshToken e s =
     (case Api_request e ''/refresh'' post_options s of
        (r, s1) \<Rightarrow> Api_refreshToken_resume r s1)"

subsection \<open>Analytics event validation\<close>

fun bindE :: "js_error + 'a \<Rightarrow> ('a \<Rightarrow> js_error + 'b) \<Rightarrow> js_error + 'b" where
  "bindE (Inl err) f = Inl err"
| "bindE (Inr v) f = f v"

text \<open>
  ToNumber, as the comparison \<open>x > 255\<close> applies it; \<open>toNum\<close> stands for the conversion
  of strings, arrays and objects.
\<close>

definition js_Number :: "(jsval \<Rightarrow> jsnum) \<Rightarrow> jsval \<Rightarrow> jsnum" where
  "js_Number toNum v =
     (case v of
        JNum n \<Rightarrow> n
      | JUndefined \<Rightarrow> NaN
      | JNull \<Rightarrow> Finite 0
      | JBool b \<Rightarrow> Finite (if b then 1 else 0)
      | _ \<Rightarrow> toNum v)"

definition require_field :: "jsval \<Rightarrow> string \<Rightarrow> js_error + unit" where
  "require_field eventData field =
     bindE (getProp eventData field) (\<lambda>v.
       if \<not> truthy v then Inl (Error (''Missing required field: '' @ field)) else Inr ())"

definition check_length :: "(jsval \<Rightarrow> jsnum) \<Rightarrow> jsval \<Rightarrow> string \<Rightarrow> js_error + unit" where
  "check_length toNum eventData field =
     bindE (getProp eventData field) (\<lambda>v.
     bindE (getProp v ''length'') (\<lambda>len.
       if num_less (Finite 255) (js_Number toNum len)
       then Inl (Error (field @ '' exceeds maximum length of 255 characters''))
       else Inr ()))"

definition check_range :: "jsval \<Rightarrow> string \<Rightarrow> real \<Rightarrow> real \<Rightarrow> string \<Rightarrow> js_error + unit" where
  "check_range eventData field lo hi msg =
     bindE (getProp eventData field) (\<lambda>v.
       if v \<noteq> JUndefined
       then (case v of
               JNum n \<Rightarrow>
                 if num_less n (Finite lo) \<or> num_less (Finite hi) n
                 then Inl (Error msg) else Inr ()
             | _ \<Rightarrow> Inl (Error msg))
       else Inr ())"

definition check_accuracy :: "jsval \<Rightarrow> js_error + unit" where
  "check_accuracy eventData =
     bindE (getProp eventData ''location_accuracy'') (\<lambda>v.
       if v \<noteq> JUndefined
       then (if v = JStr ''high'' then Inr ()
             else if v = JStr ''medium'' then Inr ()
             else if v = JStr ''low'' then Inr ()
             else Inl (Error ''location_accuracy must be one of: high, medium, low''))
       else Inr ())"

definition validate_event :: "(jsval \<Rightarrow> jsnum) \<Rightarrow> jsval \<Rightarrow> js_error + unit" where
  "validate_event toNum eventData =
     bindE (require_field eventData ''device_uuid'') (\<lambda>_.
     bindE (require_field eventData ''event_keyword'') (\<lambda>_.
     bindE (check_length toNum eventData ''device_uuid'') (\<lambda>_.
     bindE (check_length toNum eventData ''event_keyword'') (\<lambda>_.
     bindE (check_range eventData ''latitude'' (-90) 90
              ''latitude must be a number between -90 and 90'') (\<lambda>_.
     bindE (check_range eventData ''longitude'' (-180) 180
              ''longitude must be a number between -180 and 180'') (\<lambda>_.
     check_accuracy eventData))))))"

text \<open>
  \<open>registerAnalyticsEvent\<close>: every check comes before the one call of \<open>request\<close>, and a
  failed check throws.
\<close>

definition Api_registerAnalyticsEvent ::
  "env \<Rightarrow> (jsval \<Rightarrow> jsnum) \<Rightarrow> jsval \<Rightarrow> state \<Rightarrow> (js_error + jsval) \<times> state" where
  "Api_registerAnalyticsEvent e toNum eventData s =
     (case validate_event toNum eventData of
        Inl err \<Rightarrow> (Inl err, s)
      | Inr _ \<Rightarrow>
          Api_request e ''/analytics/register-event''
            \<lparr>http_method = Some ''POST'', body = eventData, requireAuth = JBool True\<rparr> s)"

section \<open>EnhancedApiService, one operation at a time\<close>

text \<open>
  In this section an operation runs from its call to its settlement with nothing else
  in between. In such a run \<open>this.refreshPromise\<close> is \<open>null\<close> when \<open>refreshToken\<close> is
  entered and is set back to \<open>null\<close> by its \<open>finally\<close> block, so the field is not part
  of the state here; overlapping calls are the subject of the next section.
\<close>

definition config_baseURL :: string where
  "config_baseURL = ''https://gu.mindware.com.mx/api/v1''"

text \<open>
  The \<open>catch\<close> blocks of \<open>logout\<close> and \<open>refreshToken\<close> are the same three statements:
  \<open>await storageService.clearAuthData(); apiService.clearToken(); throw error\<close>.
\<close>

definition cleanup_and_rethrow :: "js_error \<Rightarrow> state \<Rightarrow> (js_error + jsval) \<times> state" where
  "cleanup_and_rethrow err s =
     (case clearAuthData s of
        (Inl err', s1) \<Rightarrow> (Inl err', s1)
      | (Inr _, s1) \<Rightarrow> (Inl err, clearToken s1))"

definition Enhanced_logout :: "env \<Rightarrow> state \<Rightarrow> (js_error + jsval) \<times> state" where
  "Enhanced_logout e s =
     (case Api_logout e s of
        (Inl err, s1) \<Rightarrow> cleanup_and_rethrow err s1
      | (Inr response, s1) \<Rightarrow>
          (case getProp response ''success'' of
             Inl err \<Rightarrow> cleanup_and_rethrow err s1
           | Inr ok \<Rightarrow>
               if truthy ok
               then (case clearAuthData s1 of
                       (Inl err, s2) \<Rightarrow> cleanup_and_rethrow err s2
                     | (Inr _, s2) \<Rightarrow> (Inr response, clearToken s2))
               else (Inr response, s1)))"

text \<open>
  The body of the async function inside \<open>refreshToken\<close>, from the settlement of
  \<open>apiService.refreshToken()\<close> on. The new expiry is \<open>new Date()\<close> moved 24 hours on.
\<close>

definition Enhanced_refreshToken_resume ::
  "env \<Rightarrow> js_error + jsval \<Rightarrow> state \<Rightarrow> (js_error + jsval) \<times> state" where
  "Enhanced_refreshToken_resume e r s =
     (case r of
        Inl err \<Rightarrow> cleanup_and_rethrow err s
      | Inr response \<Rightarrow>
          (case success_and response ''token'' of
             Inl err \<Rightarrow> cleanup_and_rethrow err s
           | Inr t \<Rightarrow>
               if truthy t
               then (case storeAuthToken t s of
                       (_, s1) \<Rightarrow>
                         (case storeTokenExpiry (expiryISO e (clock e (ticks s1)))
                                 (s1\<lparr>ticks := Suc (ticks s1)\<rparr>) of
                            (_, s2) \<Rightarrow> (Inr response, s2)))
               else (Inr response, s)))"

definition Enhanced_refreshToken :: "env \<Rightarrow> state \<Rightarrow> (js_error + jsval) \<times> state" where
  "Enhanced_refreshToken e s =
     (case Api_refreshToken e s of
        (r, s1) \<Rightarrow> Enhanced_refreshToken_resume e r s1)"

text \<open>
  \<open>initialize\<close> never throws: every failure inside its \<open>try\<close> block makes it return
  \<open>false\<close>, and \<open>isInitialized\<close> is set only on the way to \<open>return true\<close>.
\<close>

definition Enhanced_initialize :: "env \<Rightarrow> state \<Rightarrow> bool \<times> state" where
  "Enhanced_initialize e s =
     (if isInitialized s then (True, s)
      else
        (let s1 = setBaseURL config_baseURL s;
             tok = getAuthToken s1
         in if truthy tok
            then (case isTokenExpired e (setToken tok s1) of
                    (isExpired, s2) \<Rightarrow>
                      if isExpired
                      then (case Enhanced_refreshToken e s2 of
                              (Inl err, s3) \<Rightarrow> (False, s3)
                            | (Inr _, s3) \<Rightarrow> (True, s3\<lparr>isInitialized := True\<rparr>))
                      else (True, s2\<lparr>isInitialized := True\<rparr>))
            else (True, s1\<lparr>isInitialized := True\<rparr>)))"

text \<open>
  \<open>request\<close>. The inner \<open>catch\<close> covers both the refresh and the retry; in it
  \<open>await this.logout()\<close> comes before the \<open>throw\<close>, so a rejected logout wins.
\<close>

definition session_expired :: js_error where
  "session_expired = Error ''Authentication expired. Please login again.''"

definition logout_and_expire :: "env \<Rightarrow> state \<Rightarrow> (js_error + jsval) \<times> state" where
  "logout_and_expire e s =
     (case Enhanced_logout e s of
        (Inl err, s1) \<Rightarrow> (Inl err, s1)
      | (Inr _, s1) \<Rightarrow> (Inl session_expired, s1))"

definition Enhanced_request ::
  "env \<Rightarrow> string \<Rightarrow> options \<Rightarrow> state \<Rightarrow> (js_error + jsval) \<times> state" where
  "Enhanced_request e endpoint opts s =
     (case Enhanced_initialize e s of
        (_, s0) \<Rightarrow>
          (case Api_request e endpoint opts s0 of
             (Inr response, s1) \<Rightarrow> (Inr response, s1)
           | (Inl err, s1) \<Rightarrow>
               if str_includes (message err) ''401'' \<and> requireAuth opts \<noteq> JBool False
               then (case Enhanced_refreshToken e s1 of
                       (Inl refreshError, s2) \<Rightarrow> logout_and_expire e s2
                     | (Inr _, s2) \<Rightarrow>
                         (case Api_request e endpoint opts s2 of
                            (Inl refreshError, s3) \<Rightarrow> logout_and_expire e s3
                          | (Inr response, s3) \<Rightarrow> (Inr response, s3)))
               else (Inl err, s1)))"

text \<open>
  The cached getters: unless forced, a truthy stored copy is wrapped in a success envelope
  and returned without a request; otherwise the endpoint is requested and a truthy
  \<open>response.data\<close> field of a successful envelope is stored.
\<close>

definition Enhanced_getUserProfile ::
  "env \<Rightarrow> bool \<Rightarrow> state \<Rightarrow> (js_error + jsval) \<times> state" where
  "Enhanced_getUserProfile e forceRefresh s =
     (if \<not> forceRefresh \<and> truthy (getUserProfile s)
      then (Inr (JObj [(''success'', JBool True), (''data'', JObj [(''user'', getUserProfile s)])]), s)
      else (case Enhanced_request e ''/user'' no_options s of
              (Inl err, s1) \<Rightarrow> (Inl err, s1)
            | (Inr response, s1) \<Rightarrow>
                (case success_and response ''user'' of
                   Inl err \<Rightarrow> (Inl err, s1)
                 | Inr user \<Rightarrow>
                     if truthy user
                     then (case storeUserProfile user s1 of (_, s2) \<Rightarrow> (Inr response, s2))
                     else (Inr response, s1))))"

definition Enhanced_getUserRoles ::
  "env \<Rightarrow> bool \<Rightarrow> state \<Rightarrow> (js_error + jsval) \<times> state" where
  "Enhanced_getUserRoles e forceRefresh s =
     (if \<not> forceRefresh \<and> truthy (getUserRoles s)
      then (Inr (JObj [(''success'', JBool True), (''data'', JObj [(''roles'', getUserRoles s)])]), s)
      else (case Enhanced_request e ''/user/roles'' no_options s of
              (Inl err, s1) \<Rightarrow> (Inl err, s1)
            | (Inr response, s1) \<Rightarrow>
                (case success_and response ''roles'' of
                   Inl err \<Rightarrow> (Inl err, s1)
                 | Inr roles \<Rightarrow>
                     if truthy roles
                     then (case storeUserRoles roles s1 of (_, s2) \<Rightarrow> (Inr response, s2))
                     else (Inr response, s1))))"

definition Enhanced_getUserPermissions ::
  "env \<Rightarrow> bool \<Rightarrow> state \<Rightarrow> (js_error + jsval) \<times> state" where
  "Enhanced_getUserPermissions e forceRefresh s =
     (if \<not> forceRefresh \<and> truthy (getUserPermissions s)
      then (Inr (JObj [(''success'', JBool True), (''data'', JObj [(''permissions'', getUserPermissions s)])]), s)
      else (case Enhanced_request e ''/user/permissions'' no_options s of
              (Inl err, s1) \<Rightarrow> (Inl err, s1)
            | (Inr response, s1) \<Rightarrow>
                (case success_and response ''permissions'' of
                   Inl err \<Rightarrow> (Inl err, s1)
                 | Inr permissions \<Rightarrow>
                     if truthy permissions
                     then (case storeUserPermissions permissions s1 of (_, s2) \<Rightarrow> (Inr response, s2))
                     else (Inr response, s1))))"

text \<open>
  \<open>getHighestRoleLevel\<close> of the service reads \<open>highest_role_level\<close> from the envelope
  that \<open>getUserPermissions()\<close> returns, and answers 1 when that is falsy or anything throws.
\<close>

definition Enhanced_getHighestRoleLevel :: "env \<Rightarrow> state \<Rightarrow> jsval \<times> state" where
  "Enhanced_getHighestRoleLevel e s =
     (case Enhanced_getUserPermissions e False s of
        (Inl err, s1) \<Rightarrow> (JNum (Finite 1), s1)
      | (Inr response, s1) \<Rightarrow>
          (case success_and response ''highest_role_level'' of
             Inl err \<Rightarrow> (JNum (Finite 1), s1)
           | Inr lvl \<Rightarrow> if truthy lvl then (lvl, s1) else (JNum (Finite 1), s1)))"

section \<open>AuthProvider\<close>

text \<open>\<open>Math.max\<close>: NaN if any argument is NaN, \<open>-Infinity\<close> for no arguments.\<close>

fun js_max :: "jsnum \<Rightarrow> jsnum \<Rightarrow> jsnum" where
  "js_max NaN y = NaN"
| "js_max x NaN = NaN"
| "js_max PosInfinity y = PosInfinity"
| "js_max x PosInfinity = PosInfinity"
| "js_max NegInfinity y = y"
| "js_max x NegInfinity = x"
| "js_max (Finite a) (Finite b) = Finite (max a b)"

definition Math_max :: "jsnum list \<Rightarrow> jsnum" where
  "Math_max xs = foldl js_max NegInfinity xs"

text \<open>\<open>userRoles.map(role => role.level)\<close>; the read throws on a null role.\<close>

fun role_levels :: "jsval list \<Rightarrow> js_error + jsval list" where
  "role_levels [] = Inr []"
| "role_levels (role # roles) =
     bindE (getProp role ''level'') (\<lambda>l.
     bindE (role_levels roles) (\<lambda>ls. Inr (l # ls)))"

definition AuthProvider_getHighestRoleLevel ::
  "(jsval \<Rightarrow> jsnum) \<Rightarrow> jsval list \<Rightarrow> js_error + jsnum" where
  "AuthProvider_getHighestRoleLevel toNum userRoles =
     (if length userRoles = 0 then Inr (Finite 1)
      else bindE (role_levels userRoles) (\<lambda>ls. Inr (Math_max (map (js_Number toNum) ls))))"

section \<open>Overlapping calls\<close>

text \<open>
  JavaScript runs one piece of code at a time. A call of an async function runs until it
  awaits, and the rest runs in later pieces, between which pieces of other calls can run.
  Here the calls of \<open>refreshToken\<close> and \<open>initialize\<close> are cut at their awaits.
  \<^item> \<open>refreshPromise\<close> is the field of the service: \<open>None\<close> is \<open>null\<close>, \<open>Some p\<close> the
    promise with handle \<open>p\<close>;
  \<^item> \<open>promises\<close> counts the promises \<open>refreshToken\<close> has created, and is the next handle;
  \<^item> \<open>settled\<close> gives the result of each promise that has settled.
\<close>

record session =
  shared :: state
  refreshPromise :: "nat option"
  promises :: nat
  settled :: "nat \<rightharpoonup> (js_error + jsval)"

text \<open>
  A call of \<open>refreshToken\<close> up to its return: with a promise in the field it returns
  that promise; otherwise it starts the inner async function, which runs to the call of
  \<open>fetch\<close> inside \<open>apiService.refreshToken()\<close>, and stores the new promise in the field.
\<close>

definition refreshToken_call :: "env \<Rightarrow> session \<Rightarrow> nat \<times> session" where
  "refreshToken_call e c =
     (case refreshPromise c of
        Some p \<Rightarrow> (p, c)
      | None \<Rightarrow>
          (promises c,
           c\<lparr>shared := Api_send e ''/refresh'' post_options (shared c),
             refreshPromise := Some (promises c),
             promises := Suc (promises c)\<rparr>))"

text \<open>
  The rest of the inner async function, run when \<open>fetch\<close> has settled with the given
  outcome: the two \<open>resume\<close> parts, then \<open>finally\<close> clears the field and the promise
  settles. It is taken as one piece: its further awaits are on the body of the response
  and on storage writes, and the field stays set until the end.
\<close>

definition refreshToken_settle :: "env \<Rightarrow> fetch_outcome \<Rightarrow> session \<Rightarrow> session" where
  "refreshToken_settle e outcome c =
     (case refreshPromise c of
        None \<Rightarrow> c
      | Some p \<Rightarrow>
          (case Api_refreshToken_resume (Api_receive e outcome) (shared c) of
             (r, s1) \<Rightarrow>
               (case Enhanced_refreshToken_resume e r s1 of
                  (r', s2) \<Rightarrow>
                    c\<lparr>shared := s2, refreshPromise := None,
                      settled := (settled c)(p \<mapsto> r')\<rparr>)))"

text \<open>\<open>n\<close> calls of \<open>refreshToken\<close> one after the other, with the promise each one got.\<close>

fun refreshToken_calls :: "env \<Rightarrow> nat \<Rightarrow> session \<Rightarrow> nat list \<times> session" where
  "refreshToken_calls e 0 c = ([], c)"
| "refreshToken_calls e (Suc n) c =
     (case refreshToken_call e c of
        (p, c1) \<Rightarrow>
          (case refreshToken_calls e n c1 of
             (ps, c2) \<Rightarrow> (p # ps, c2)))"

text \<open>
  A call of \<open>initialize\<close> is at one of these points: waiting for the token it has read,
  waiting for the expiry it has read, waiting for the refresh promise it holds, or done.
\<close>

datatype init_task =
    AwaitToken jsval
  | AwaitExpiry "int option option"
  | AwaitRefresh nat
  | Returned bool

definition initialize_call :: "session \<Rightarrow> init_task \<times> session" where
  "initialize_call c =
     (if isInitialized (shared c) then (Returned True, c)
      else
        (let s1 = setBaseURL config_baseURL (shared c)
         in (AwaitToken (getAuthToken s1), c\<lparr>shared := s1\<rparr>)))"

fun initialize_resume :: "env \<Rightarrow> init_task \<Rightarrow> session \<Rightarrow> init_task \<times> session" where
  "initialize_resume e (AwaitToken tok) c =
     (if truthy tok
      then (let s1 = setToken tok (shared c)
            in (AwaitExpiry (getTokenExpiry e s1), c\<lparr>shared := s1\<rparr>))
      else (Returned True, c\<lparr>shared := (shared c)\<lparr>isInitialized := True\<rparr>\<rparr>))"
| "initialize_resume e (AwaitExpiry expiry) c =
     (case isTokenExpired_resume e expiry (shared c) of
        (isExpired, s1) \<Rightarrow>
          if isExpired
          then (case refreshToken_call e (c\<lparr>shared := s1\<rparr>) of
                  (p, c1) \<Rightarrow> (AwaitRefresh p, c1))
          else (Returned True, c\<lparr>shared := s1\<lparr>isInitialized := True\<rparr>\<rparr>))"
| "initialize_resume e (AwaitRefresh p) c =
     (case settled c p of
        None \<Rightarrow> (AwaitRefresh p, c)
      | Some (Inl err) \<Rightarrow> (Returned False, c)
      | Some (Inr response) \<Rightarrow>
          (Returned True, c\<lparr>shared := (shared c)\<lparr>isInitialized := True\<rparr>\<rparr>))"
| "initialize_resume e (Returned b) c = (Returned b, c)"

text \<open>
  A schedule: caller \<open>i\<close> calls \<open>initialize\<close>, the call of caller \<open>i\<close> runs its next
  piece, or the pending refresh request settles.
\<close>

datatype event = Call nat | Resume nat | Settle fetch_outcome

fun initialize_run ::
  "env \<Rightarrow> event list \<Rightarrow> (nat \<rightharpoonup> init_task) \<times> session \<Rightarrow> (nat \<rightharpoonup> init_task) \<times> session" where
  "initialize_run e [] tc = tc"
| "initialize_run e (Call i # evs) (ts, c) =
     (case initialize_call c of
        (t, c1) \<Rightarrow> initialize_run e evs (ts(i \<mapsto> t), c1))"
| "initialize_run e (Resume i # evs) (ts, c) =
     (case ts i of
        None \<Rightarrow> initialize_run e evs (ts, c)
      | Some t \<Rightarrow>
          (case initialize_resume e t c of
             (t', c1) \<Rightarrow> initialize_run e evs (ts(i \<mapsto> t'), c1)))"
| "initialize_run e (Settle outcome # evs) (ts, c) =
     initialize_run e evs (ts, refreshToken_settle e outcome c)"

section \<open>Concrete environments and states\<close>

text \<open>
  The state of the three singletons right after the modules are loaded, and the same with
  a session in the store: a token, an expiry, a profile, roles and permissions.
\<close>

definition fresh_state :: state where
  "fresh_state =
     \<lparr>baseURL = ''https://gu.mindware.com.mx/api/v1'', token = JNull,
      isAuthenticated = False, memoryStorage = Map.empty, isInitialized = False,
      sent = [], ticks = 0\<rparr>"

definition role_object :: "string \<Rightarrow> real \<Rightarrow> jsval" where
  "role_object name level = JObj [(''name'', JStr name), (''level'', JNum (Finite level))]"

definition stored_session :: "string \<rightharpoonup> jsval" where
  "stored_session =
     [key_authToken \<mapsto> JStr ''tok-1'',
      key_refreshToken \<mapsto> JStr ''ref-1'',
      key_tokenExpiry \<mapsto> JStr ''2030-01-01T00:00:00.000Z'',
      key_userProfile \<mapsto> JObj [(''id'', JNum (Finite 7)), (''name'', JStr ''Ana'')],
      key_userRoles \<mapsto> JArr [role_object ''admin'' 4],
      key_userPermissions \<mapsto> JArr [JStr ''view_properties'']]"

definition restored_state :: state where
  "restored_state = fresh_state\<lparr>memoryStorage := stored_session\<rparr>"

definition logged_in_state :: state where
  "logged_in_state =
     fresh_state\<lparr>token := JStr ''tok-1'', isAuthenticated := True,
       memoryStorage := stored_session, isInitialized := True\<rparr>"

text \<open>
  A server that answers the \<open>k\<close>-th request with the \<open>k\<close>-th outcome of a list and is
  unreachable afterwards. The clock stands at 2026-01-01; the two dates it can parse are
  the stored expiry above and one in the past.
\<close>

definition network_failure :: fetch_outcome where
  "network_failure = FetchRejects (TypeError ''Network request failed'')"

definition scripted :: "fetch_outcome list \<Rightarrow> env" where
  "scripted outcomes =
     \<lparr>fetch = (\<lambda>reqs. if 0 < length reqs \<and> length reqs \<le> length outcomes
                       then outcomes ! (length reqs - 1) else network_failure),
      clock = (\<lambda>k. 1767225600000),
      expiryISO = (\<lambda>t. ''2026-01-02T00:00:00.000Z''),
      parseDate = (\<lambda>v. if v = JStr ''2030-01-01T00:00:00.000Z'' then Some 1893456000000
                        else if v = JStr ''2020-01-01T00:00:00.000Z'' then Some 1577836800000
                        else None),
      toStr = (\<lambda>v. ''[object Object]'')\<rparr>"

text \<open>
  A server that answers 401 without a message, then grants a refresh, then serves the
  profile.
\<close>

definition refresh_then_ok :: env where
  "refresh_then_ok = scripted
     [Response 401 (Inr (JObj [(''success'', JBool False)])),
      Response 200 (Inr (JObj [(''success'', JBool True),
                               (''data'', JObj [(''token'', JStr ''tok-2'')])])),
      Response 200 (Inr (JObj [(''success'', JBool True),
                               (''data'', JObj [(''user'', JObj [(''id'', JNum (Finite 7))])])]))]"

text \<open>A server that serves an updated profile.\<close>

definition profile_server :: env where
  "profile_server = scripted
     [Response 200 (Inr (JObj [(''success'', JBool True),
        (''data'', JObj [(''user'', JObj [(''id'', JNum (Finite 7)), (''name'', JStr ''Ana Maria'')])])]))]"

text \<open>A server that serves permissions together with a highest role level.\<close>

definition permissions_server :: env where
  "permissions_server = scripted
     [Response 200 (Inr (JObj [(''success'', JBool True),
        (''data'', JObj [(''permissions'', JArr [JStr ''view_properties'']),
                         (''highest_role_level'', JNum (Finite 3))])]))]"

text \<open>A conversion to number that knows no string, array or object to be numeric.\<close>

definition not_numeric :: "jsval \<Rightarrow> jsnum" where
  "not_numeric v = NaN"

definition fresh_session :: session where
  "fresh_session =
     \<lparr>shared = restored_state, refreshPromise = None, promises = 0, settled = Map.empty\<rparr>"

text \<open>The same session with an expiry that has passed.\<close>

definition stale_session :: session where
  "stale_session =
     fresh_session\<lparr>shared := restored_state\<lparr>memoryStorage :=
        stored_session(key_tokenExpiry \<mapsto> JStr ''2020-01-01T00:00:00.000Z'')\<rparr>\<rparr>"

definition no_calls :: "(nat \<rightharpoonup> init_task) \<times> session" where
  "no_calls = (Map.empty, fresh_session)"

section \<open>Basic facts\<close>

lemmas key_defs = key_authToken_def key_refreshToken_def key_tokenExpiry_def
  key_userProfile_def key_userRoles_def key_userPermissions_def key_appSettings_def

lemma call_method_removeTokenExpiry:
  "call_method StorageService_method ''removeTokenExpiry'' s = (Inl (TypeError ''this.removeTokenExpiry is not a function''), s)"
  by (simp add: call_method_def StorageService_method_def)

lemma call_method_removeAuthToken:
  "call_method StorageService_method ''removeAuthToken'' s = (Inr True, s\<lparr>memoryStorage := (memoryStorage s)(key_authToken := None)\<rparr>)"
  by (simp add: call_method_def StorageService_method_def removeAuthToken_def removeItem_def)

lemma call_method_removeRefreshToken:
  "call_method StorageService_method ''removeRefreshToken'' s = (Inr True, s\<lparr>memoryStorage := (memoryStorage s)(key_refreshToken := None)\<rparr>)"
  by (simp add: call_method_def StorageService_method_def removeRefreshToken_def removeItem_def)

lemma clearAuthData_eq:
  "clearAuthData s =
     (Inl (TypeError ''this.removeTokenExpiry is not a function''),
      s\<lparr>memoryStorage := (memoryStorage s)(key_authToken := None, key_refreshToken := None)\<rparr>)"
  by (simp add: clearAuthData_def call_method_removeTokenExpiry call_method_removeAuthToken
      call_method_removeRefreshToken)

lemma cleanup_and_rethrow_eq:
  "cleanup_and_rethrow err s =
     (Inl (TypeError ''this.removeTokenExpiry is not a function''),
      s\<lparr>memoryStorage := (memoryStorage s)(key_authToken := None, key_refreshToken := None)\<rparr>)"
  by (simp add: cleanup_and_rethrow_def clearAuthData_eq)

lemma sent_Api_request:
  "sent (snd (Api_request e ep opts s)) = sent s @ [build_request e ep opts s]"
  by (simp add: Api_request_def Api_send_def Let_def)

lemma snd_Api_request: "snd (Api_request e ep opts s) = Api_send e ep opts s"
  by (simp add: Api_request_def Let_def)

lemma fst_Api_request:
  "fst (Api_request e ep opts s) = Api_receive e (fetch e (sent s @ [build_request e ep opts s]))"
  by (simp add: Api_request_def Let_def Api_send_def)

lemma url_build_request: "url (build_request e ep opts s) = baseURL s @ ep"
  by (simp add: build_request_def)

lemma Api_send_fields:
  "baseURL (Api_send e ep opts s) = baseURL s"
  "token (Api_send e ep opts s) = token s"
  "isAuthenticated (Api_send e ep opts s) = isAuthenticated s"
  "memoryStorage (Api_send e ep opts s) = memoryStorage s"
  "isInitialized (Api_send e ep opts s) = isInitialized s"
  "ticks (Api_send e ep opts s) = ticks s"
  "sent (Api_send e ep opts s) = sent s @ [build_request e ep opts s]"
  by (simp_all add: Api_send_def)

lemma Api_logout_sent:
  "sent (snd (Api_logout e s)) = sent s @ [build_request e ''/logout'' post_options s]"
  by (auto simp: Api_logout_def Api_request_def Let_def Api_send_def clearToken_def
      split: sum.splits prod.splits)

lemma Api_logout_baseURL: "baseURL (snd (Api_logout e s)) = baseURL s"
  by (auto simp: Api_logout_def Api_request_def Let_def Api_send_def clearToken_def
      split: sum.splits prod.splits)

lemma Enhanced_logout_sent:
  "sent (snd (Enhanced_logout e s)) = sent s @ [build_request e ''/logout'' post_options s]"
  using Api_logout_sent[of e s]
  by (auto simp: Enhanced_logout_def cleanup_and_rethrow_eq clearAuthData_eq clearToken_def
      split: sum.splits prod.splits)

lemma Enhanced_logout_baseURL: "baseURL (snd (Enhanced_logout e s)) = baseURL s"
  using Api_logout_baseURL[of e s]
  by (auto simp: Enhanced_logout_def cleanup_and_rethrow_eq clearAuthData_eq clearToken_def
      split: sum.splits prod.splits)

lemma Api_refreshToken_resume_fields:
  "sent (snd (Api_refreshToken_resume r s)) = sent s"
  "baseURL (snd (Api_refreshToken_resume r s)) = baseURL s"
  "memoryStorage (snd (Api_refreshToken_resume r s)) = memoryStorage s"
  "isInitialized (snd (Api_refreshToken_resume r s)) = isInitialized s"
  by (auto simp: Api_refreshToken_resume_def setToken_def split: sum.splits)

lemma Enhanced_refreshToken_resume_fields:
  "sent (snd (Enhanced_refreshToken_resume e r s)) = sent s"
  "baseURL (snd (Enhanced_refreshToken_resume e r s)) = baseURL s"
  "isInitialized (snd (Enhanced_refreshToken_resume e r s)) = isInitialized s"
  by (auto simp: Enhanced_refreshToken_resume_def cleanup_and_rethrow_eq storeAuthToken_def
      storeTokenExpiry_def setItem_def split: sum.splits prod.splits)

lemma Enhanced_refreshToken_sent:
  "sent (snd (Enhanced_refreshToken e s)) = sent s @ [build_request e ''/refresh'' post_options s]"
  by (simp add: Enhanced_refreshToken_def Api_refreshToken_def split_beta
      Enhanced_refreshToken_resume_fields Api_refreshToken_resume_fields sent_Api_request)


lemma Enhanced_refreshToken_isInitialized:
  "isInitialized (snd (Enhanced_refreshToken e s)) = isInitialized s"
  by (simp add: Enhanced_refreshToken_def Api_refreshToken_def split_beta
      Enhanced_refreshToken_resume_fields Api_refreshToken_resume_fields snd_Api_request Api_send_fields)


lemma show_nat_401: "show_nat 401 = ''401''"
  by simp

lemma isTokenExpired_fields:
  "sent (snd (isTokenExpired e s)) = sent s"
  "baseURL (snd (isTokenExpired e s)) = baseURL s"
  by (auto simp: isTokenExpired_def isTokenExpired_resume_def split: option.splits)

lemma logout_and_expire_sent:
  "sent (snd (logout_and_expire e s)) = sent s @ [build_request e ''/logout'' post_options s]"
  using Enhanced_logout_sent[of e s]
  by (auto simp: logout_and_expire_def split: prod.splits sum.splits)

lemma logout_and_expire_baseURL: "baseURL (snd (logout_and_expire e s)) = baseURL s"
  using Enhanced_logout_baseURL[of e s]
  by (auto simp: logout_and_expire_def split: prod.splits sum.splits)

lemma logout_and_expire_rejects:
  "\<exists>err. fst (logout_and_expire e s) = Inl err
     \<and> (err = session_expired \<or> fst (Enhanced_logout e s) = Inl err)"
  by (auto simp: logout_and_expire_def split: prod.splits sum.splits)

lemma foldl_js_max_Finite:
  "foldl js_max (Finite a) (map Finite ls) = Finite (Max (set (a # ls)))"
proof (induction ls arbitrary: a)
  case Nil
  then show ?case by simp
next
  case (Cons x xs)
  have "Max (insert (max a x) (set xs)) = Max (insert a (insert x (set xs)))"
    by (cases "xs = []") (simp_all add: max.assoc)
  with Cons show ?case by simp
qed

lemma Math_max_Finite:
  "ls \<noteq> [] \<Longrightarrow> Math_max (map Finite ls) = Finite (Max (set ls))"
  by (cases ls) (simp_all add: Math_max_def foldl_js_max_Finite)

lemma role_levels_role_objects:
  "role_levels (map (\<lambda>(n, l). role_object n l) roles) =
     Inr (map (\<lambda>(n, l). JNum (Finite l)) roles)"
  by (induction roles) (auto simp: role_object_def)

lemma AuthProvider_max:
  assumes "roles \<noteq> []"
  shows "AuthProvider_getHighestRoleLevel toNum (map (\<lambda>(n, l). role_object n l) roles) =
          Inr (Finite (Max (set (map snd roles))))"
proof -
  have eq: "map (js_Number toNum) (map (\<lambda>(n, l). JNum (Finite l)) roles) = map Finite (map snd roles)"
    by (induction roles) (auto simp: js_Number_def)
  have "map snd roles \<noteq> []" using assms by simp
  then have "Math_max (map Finite (map snd roles)) = Finite (Max (set (map snd roles)))"
    by (rule Math_max_Finite)
  then have m: "Math_max (map (js_Number toNum) (map (\<lambda>(n, l). JNum (Finite l)) roles)) =
      Finite (Max (set (map snd roles)))"
    by (simp only: eq)
  have "length (map (\<lambda>(n, l). role_object n l) roles) \<noteq> 0" using assms by simp
  then show ?thesis
    unfolding AuthProvider_getHighestRoleLevel_def role_levels_role_objects
    by (simp only: if_False bindE.simps m)
qed

lemma Enhanced_getUserPermissions_cached:
  "truthy (getUserPermissions s) \<Longrightarrow>
   Enhanced_getUserPermissions e False s =
     (Inr (JObj [(''success'', JBool True), (''data'', JObj [(''permissions'', getUserPermissions s)])]), s)"
  by (simp add: Enhanced_getUserPermissions_def)

lemma Enhanced_level_cached:
  "truthy (getUserPermissions s) \<Longrightarrow> Enhanced_getHighestRoleLevel e s = (JNum (Finite 1), s)"
  by (simp add: Enhanced_getHighestRoleLevel_def Enhanced_getUserPermissions_cached success_and_def)

lemma Enhanced_initialize_done: "isInitialized s \<Longrightarrow> Enhanced_initialize e s = (True, s)"
  by (simp add: Enhanced_initialize_def)


lemma profile_server_fetch:
  "fetch profile_server [r1] = Response 200 (Inr (JObj [(''success'', JBool True),
        (''data'', JObj [(''user'', JObj [(''id'', JNum (Finite 7)), (''name'', JStr ''Ana Maria'')])])]))"
  by (simp add: profile_server_def scripted_def)

lemma permissions_server_fetch:
  "fetch permissions_server [r1] = Response 200 (Inr (JObj [(''success'', JBool True),
        (''data'', JObj [(''permissions'', JArr [JStr ''view_properties'']),
                         (''highest_role_level'', JNum (Finite 3))])]))"
  by (simp add: permissions_server_def scripted_def)

lemma Enhanced_initialize_sent:
  "\<exists>reqs. sent (snd (Enhanced_initialize e s)) = sent s @ reqs"
proof (cases "isInitialized s")
  case True
  then show ?thesis by (simp add: Enhanced_initialize_def)
next
  case False
  define s1 where "s1 = setBaseURL config_baseURL s"
  define s2 where "s2 = snd (isTokenExpired e (setToken (getAuthToken s1) s1))"
  have sent1: "sent s1 = sent s" by (simp add: s1_def setBaseURL_def)
  have sent2: "sent s2 = sent s"
    by (simp add: s2_def isTokenExpired_fields setToken_def sent1)
  have sent3: "sent (snd (Enhanced_refreshToken e s2)) =
      sent s @ [build_request e ''/refresh'' post_options s2]"
    by (simp add: Enhanced_refreshToken_sent sent2)
  show ?thesis
    using False sent1 sent2 sent3
    by (auto simp: Enhanced_initialize_def Let_def s1_def[symmetric] s2_def
        split: prod.splits sum.splits)
qed

lemma Enhanced_request_sends:
  "\<exists>before after.
     sent (snd (Enhanced_request e endpoint opts s)) =
       sent s @ before @ [build_request e endpoint opts (snd (Enhanced_initialize e s))] @ after"
proof -
  obtain b s0 where init: "Enhanced_initialize e s = (b, s0)"
    by (cases "Enhanced_initialize e s")
  obtain before where before: "sent s0 = sent s @ before"
    using Enhanced_initialize_sent[of e s] init by auto
  obtain r1 s1 where first: "Api_request e endpoint opts s0 = (r1, s1)"
    by (cases "Api_request e endpoint opts s0")
  have sent1: "sent s1 = sent s0 @ [build_request e endpoint opts s0]"
    using sent_Api_request[of e endpoint opts s0] first by simp
  obtain r2 s2 where refresh: "Enhanced_refreshToken e s1 = (r2, s2)"
    by (cases "Enhanced_refreshToken e s1")
  have sent2: "sent s2 = sent s1 @ [build_request e ''/refresh'' post_options s1]"
    using Enhanced_refreshToken_sent[of e s1] refresh by simp
  obtain r3 s3 where retry: "Api_request e endpoint opts s2 = (r3, s3)"
    by (cases "Api_request e endpoint opts s2")
  have sent3: "sent s3 = sent s2 @ [build_request e endpoint opts s2]"
    using sent_Api_request[of e endpoint opts s2] retry by simp
  have "\<exists>after. sent (snd (Enhanced_request e endpoint opts s)) = sent s1 @ after"
    using init first refresh retry
    by (auto simp: Enhanced_request_def logout_and_expire_sent sent2 sent3 split: sum.splits)
  then obtain after where "sent (snd (Enhanced_request e endpoint opts s)) = sent s1 @ after"
    by blast
  then have "sent (snd (Enhanced_request e endpoint opts s)) =
      sent s @ before @ [build_request e endpoint opts (snd (Enhanced_initialize e s))] @ after"
    using before sent1 init by simp
  then show ?thesis by blast
qed

lemma isTokenExpired_isInitialized:
  "isInitialized (snd (isTokenExpired e s)) = isInitialized s"
  by (auto simp: isTokenExpired_def isTokenExpired_resume_def split: option.splits)

lemma Enhanced_initialize_true:
  "fst (Enhanced_initialize e s) \<Longrightarrow> isInitialized (snd (Enhanced_initialize e s))"
  by (auto simp: Enhanced_initialize_def Let_def split: if_splits prod.splits sum.splits)

lemma fresh_session_token: "getAuthToken (setBaseURL config_baseURL restored_state) = JStr ''tok-1''"
  by (simp add: getAuthToken_def getItem_def setBaseURL_def restored_state_def stored_session_def key_defs)

lemma refreshToken_calls_join:
  "refreshPromise c = Some p \<Longrightarrow> refreshToken_calls e n c = (replicate n p, c)"
  by (induction n) (simp_all add: refreshToken_call_def)

lemma refreshToken_call_start:
  "refreshPromise c = None \<Longrightarrow>
   refreshToken_call e c =
     (promises c,
      c\<lparr>shared := Api_send e ''/refresh'' post_options (shared c),
        refreshPromise := Some (promises c), promises := Suc (promises c)\<rparr>)"
  by (simp add: refreshToken_call_def)

lemma refreshToken_calls_start:
  assumes "refreshPromise c = None"
  shows "refreshToken_calls e (Suc n) c =
     (replicate (Suc n) (promises c),
      c\<lparr>shared := Api_send e ''/refresh'' post_options (shared c),
        refreshPromise := Some (promises c), promises := Suc (promises c)\<rparr>)"
  using assms by (simp add: refreshToken_call_start refreshToken_calls_join)

lemma refreshToken_settle_sent:
  "sent (shared (refreshToken_settle e outcome c)) = sent (shared c)"
  by (simp add: refreshToken_settle_def split_beta Enhanced_refreshToken_resume_fields
      Api_refreshToken_resume_fields split: option.splits)

lemma refreshToken_settle_result:
  "refreshPromise c = Some p \<Longrightarrow>
   settled (refreshToken_settle e outcome c) p =
     Some (fst (Enhanced_refreshToken_resume e
            (fst (Api_refreshToken_resume (Api_receive e outcome) (shared c)))
            (snd (Api_refreshToken_resume (Api_receive e outcome) (shared c)))))
   \<and> refreshPromise (refreshToken_settle e outcome c) = None"
  by (simp add: refreshToken_settle_def split_beta)

text \<open>
  A call that runs alone in the model of overlapping calls does what the one-operation
  model of the previous section says.
\<close>

lemma refreshToken_alone:
  assumes "refreshPromise c = None"
  shows "shared (refreshToken_settle e
            (fetch e (sent (shared c) @ [build_request e ''/refresh'' post_options (shared c)]))
            (snd (refreshToken_call e c))) = snd (Enhanced_refreshToken e (shared c))
       \<and> settled (refreshToken_settle e
            (fetch e (sent (shared c) @ [build_request e ''/refresh'' post_options (shared c)]))
            (snd (refreshToken_call e c))) (fst (refreshToken_call e c)) =
           Some (fst (Enhanced_refreshToken e (shared c)))"
  using assms
  by (simp add: refreshToken_call_def refreshToken_settle_def Enhanced_refreshToken_def
      Api_refreshToken_def Api_request_def Let_def split_beta Api_send_fields)

lemma refreshToken_settle_idle: "refreshPromise c = None \<Longrightarrow> refreshToken_settle e outcome c = c"
  by (simp add: refreshToken_settle_def)

lemma build_request_cong:
  "baseURL s = baseURL s' \<Longrightarrow> token s = token s' \<Longrightarrow>
   build_request e ep opts s = build_request e ep opts s'"
  by (simp add: build_request_def getHeaders_def)

lemma isTokenExpired_resume_fields:
  "sent (snd (isTokenExpired_resume e x s)) = sent s"
  "baseURL (snd (isTokenExpired_resume e x s)) = baseURL s"
  "token (snd (isTokenExpired_resume e x s)) = token s"
  by (auto simp: isTokenExpired_resume_def split: option.splits)

lemma initialize_run_append:
  "initialize_run e (evs @ evs') tc = initialize_run e evs' (initialize_run e evs tc)"
  by (induction e evs tc rule: initialize_run.induct) (auto split: option.splits prod.splits)

lemma initialize_alone:
  assumes idle: "refreshPromise c = None"
  shows "fst (initialize_run e
           [Call i, Resume i, Resume i,
            Settle (fetch e (sent (shared c) @
               [build_request e ''/refresh'' post_options
                  (setToken (getAuthToken (shared c)) (setBaseURL config_baseURL (shared c)))])),
            Resume i] (ts, c)) i = Some (Returned (fst (Enhanced_initialize e (shared c))))
       \<and> shared (snd (initialize_run e
           [Call i, Resume i, Resume i,
            Settle (fetch e (sent (shared c) @
               [build_request e ''/refresh'' post_options
                  (setToken (getAuthToken (shared c)) (setBaseURL config_baseURL (shared c)))])),
            Resume i] (ts, c))) = snd (Enhanced_initialize e (shared c))"
    (is "?P (initialize_run e [Call i, Resume i, Resume i, Settle ?out, Resume i] (ts, c))")
proof (cases "isInitialized (shared c)")
  case True
  then show ?thesis
    using idle by (simp add: initialize_call_def Enhanced_initialize_def refreshToken_settle_idle)
next
  case False
  define s1 where "s1 = setBaseURL config_baseURL (shared c)"
  define tok where "tok = getAuthToken s1"
  have tok': "getAuthToken (shared c) = tok"
    by (simp add: tok_def s1_def getAuthToken_def getItem_def setBaseURL_def)
  show ?thesis
  proof (cases "truthy tok")
    case no_token: False
    then show ?thesis
      using idle \<open>\<not> isInitialized (shared c)\<close>
      by (simp add: initialize_call_def Enhanced_initialize_def Let_def s1_def[symmetric]
          tok_def[symmetric] refreshToken_settle_idle)
  next
    case has_token: True
    define s1' where "s1' = setToken tok s1"
    obtain isExpired s2 where exp: "isTokenExpired e s1' = (isExpired, s2)"
      by (cases "isTokenExpired e s1'")
    then have exp': "isTokenExpired_resume e (getTokenExpiry e s1') s1' = (isExpired, s2)"
      by (simp add: isTokenExpired_def)
    have s2: "sent s2 = sent (shared c)" "baseURL s2 = baseURL s1'" "token s2 = token s1'"
      using isTokenExpired_resume_fields[of e "getTokenExpiry e s1'" s1'] exp'
      by (simp_all add: s1'_def s1_def setToken_def setBaseURL_def)
    show ?thesis
    proof (cases isExpired)
      case not_expired: False
      then show ?thesis
        using idle \<open>\<not> isInitialized (shared c)\<close> has_token exp exp'
        by (simp add: initialize_call_def Enhanced_initialize_def Let_def s1_def[symmetric]
            tok_def[symmetric] s1'_def[symmetric] refreshToken_settle_idle)
    next
      case expired: True
      define c2 where "c2 = c\<lparr>shared := s2\<rparr>"
      have idle2: "refreshPromise c2 = None" using idle by (simp add: c2_def)
      have req: "build_request e ''/refresh'' post_options
                  (setToken (getAuthToken (shared c)) (setBaseURL config_baseURL (shared c))) =
                 build_request e ''/refresh'' post_options (shared c2)"
        by (rule build_request_cong) (simp_all add: c2_def s2 tok' s1'_def s1_def)
      have out: "?out = fetch e (sent (shared c2) @ [build_request e ''/refresh'' post_options (shared c2)])"
        by (simp add: req) (simp add: c2_def s2)
      note alone = refreshToken_alone[OF idle2, of e, folded out]
      have step1: "initialize_run e [Call i, Resume i, Resume i] (ts, c) =
          (ts(i \<mapsto> AwaitRefresh (fst (refreshToken_call e c2))), snd (refreshToken_call e c2))"
        using \<open>\<not> isInitialized (shared c)\<close> has_token exp' expired
        by (simp add: initialize_call_def Let_def s1_def[symmetric] tok_def[symmetric]
            s1'_def[symmetric] c2_def[symmetric] split_beta)
      have run: "initialize_run e [Call i, Resume i, Resume i, Settle ?out, Resume i] (ts, c) =
          initialize_run e [Resume i]
            (ts(i \<mapsto> AwaitRefresh (fst (refreshToken_call e c2))),
             refreshToken_settle e ?out (snd (refreshToken_call e c2)))"
        using step1 initialize_run_append[of e "[Call i, Resume i, Resume i]" "[Settle ?out, Resume i]" "(ts, c)"]
        by (simp del: initialize_run.simps(2,3))
      have A: "Enhanced_initialize e (shared c) =
          (case Enhanced_refreshToken e s2 of
             (Inl err, s3) \<Rightarrow> (False, s3)
           | (Inr _, s3) \<Rightarrow> (True, s3\<lparr>isInitialized := True\<rparr>))"
        using \<open>\<not> isInitialized (shared c)\<close> has_token exp expired
        by (simp add: Enhanced_initialize_def Let_def s1_def[symmetric] tok_def[symmetric]
            s1'_def[symmetric])
      show ?thesis
        unfolding run A using alone
        by (cases "Enhanced_refreshToken e s2")
           (auto simp: c2_def split: sum.splits)
    qed
  qed
qed

lemma Secure_clearAuthData_rejects:
  "Secure_clearAuthData_promises st =
     (Inl (TypeError ''this.removeTokenExpiry is not a function''),
      if isSecureStoreAvailable st
      then st\<lparr>deleteRequests := deleteRequests st @ [key_authToken, key_refreshToken]\<rparr>
      else st)"
  by (simp add: Secure_clearAuthData_promises_def call_method_def Secure_method_def
      Secure_removeItem_def)

lemma validate_event_accepts:
  assumes "validate_event toNum ev = Inr ()"
  shows "\<exists>d k dl kl lat lon acc.
           getProp ev ''device_uuid'' = Inr d \<and> truthy d
         \<and> getProp ev ''event_keyword'' = Inr k \<and> truthy k
         \<and> getProp d ''length'' = Inr dl \<and> \<not> num_less (Finite 255) (js_Number toNum dl)
         \<and> getProp k ''length'' = Inr kl \<and> \<not> num_less (Finite 255) (js_Number toNum kl)
         \<and> getProp ev ''latitude'' = Inr lat
         \<and> (lat = JUndefined \<or>
              (\<exists>n. lat = JNum n \<and> \<not> num_less n (Finite (-90)) \<and> \<not> num_less (Finite 90) n))
         \<and> getProp ev ''longitude'' = Inr lon
         \<and> (lon = JUndefined \<or>
              (\<exists>n. lon = JNum n \<and> \<not> num_less n (Finite (-180)) \<and> \<not> num_less (Finite 180) n))
         \<and> getProp ev ''location_accuracy'' = Inr acc
         \<and> (acc = JUndefined \<or> acc = JStr ''high'' \<or> acc = JStr ''medium'' \<or> acc = JStr ''low'')"
proof -
  obtain d where d: "getProp ev ''device_uuid'' = Inr d" "truthy d"
    using assms
    by (cases "getProp ev ''device_uuid''")
       (auto simp: validate_event_def require_field_def split: if_splits)
  obtain k where k: "getProp ev ''event_keyword'' = Inr k" "truthy k"
    using assms d
    by (cases "getProp ev ''event_keyword''")
       (auto simp: validate_event_def require_field_def split: if_splits)
  obtain dl where dl: "getProp d ''length'' = Inr dl" "\<not> num_less (Finite 255) (js_Number toNum dl)"
    using assms d k
    by (cases "getProp d ''length''")
       (auto simp: validate_event_def require_field_def check_length_def split: if_splits)
  obtain kl where kl: "getProp k ''length'' = Inr kl" "\<not> num_less (Finite 255) (js_Number toNum kl)"
    using assms d k dl
    by (cases "getProp k ''length''")
       (auto simp: validate_event_def require_field_def check_length_def split: if_splits)
  have rest: "bindE (check_range ev ''latitude'' (-90) 90
              ''latitude must be a number between -90 and 90'') (\<lambda>_.
     bindE (check_range ev ''longitude'' (-180) 180
              ''longitude must be a number between -180 and 180'') (\<lambda>_.
     check_accuracy ev)) = Inr ()"
    using assms d k dl kl
    by (simp add: validate_event_def require_field_def check_length_def)
  obtain lat where lat: "getProp ev ''latitude'' = Inr lat"
    "lat = JUndefined \<or>
       (\<exists>n. lat = JNum n \<and> \<not> num_less n (Finite (-90)) \<and> \<not> num_less (Finite 90) n)"
    using rest
    by (cases "getProp ev ''latitude''")
       (auto simp: check_range_def split: if_splits jsval.splits)
  have rest2: "bindE (check_range ev ''longitude'' (-180) 180
              ''longitude must be a number between -180 and 180'') (\<lambda>_.
     check_accuracy ev) = Inr ()"
    using rest by (cases "check_range ev ''latitude'' (-90) 90
              ''latitude must be a number between -90 and 90''") auto
  obtain lon where lon: "getProp ev ''longitude'' = Inr lon"
    "lon = JUndefined \<or>
       (\<exists>n. lon = JNum n \<and> \<not> num_less n (Finite (-180)) \<and> \<not> num_less (Finite 180) n)"
    using rest2
    by (cases "getProp ev ''longitude''")
       (auto simp: check_range_def split: if_splits jsval.splits)
  have rest3: "check_accuracy ev = Inr ()"
    using rest2 by (cases "check_range ev ''longitude'' (-180) 180
              ''longitude must be a number between -180 and 180''") auto
  obtain acc where acc: "getProp ev ''location_accuracy'' = Inr acc"
    "acc = JUndefined \<or> acc = JStr ''high'' \<or> acc = JStr ''medium'' \<or> acc = JStr ''low''"
    using rest3
    by (cases "getProp ev ''location_accuracy''")
       (auto simp: check_accuracy_def split: if_splits)
  show ?thesis using d k dl kl lat lon acc by blast
qed

lemma Enhanced_level_from_envelope:
  assumes "Enhanced_getUserPermissions e False s = (Inr response, s1)"
      and "success_and response ''highest_role_level'' = Inr lvl"
  shows "Enhanced_getHighestRoleLevel e s = (if truthy lvl then lvl else JNum (Finite 1), s1)"
  using assms by (simp add: Enhanced_getHighestRoleLevel_def)

lemma refreshToken_settle_isInitialized:
  "isInitialized (shared (refreshToken_settle e outcome c)) = isInitialized (shared c)"
  by (simp add: refreshToken_settle_def split_beta Enhanced_refreshToken_resume_fields
      Api_refreshToken_resume_fields split: option.splits)

lemma refreshToken_call_isInitialized:
  "isInitialized (shared (snd (refreshToken_call e c))) = isInitialized (shared c)"
  by (simp add: refreshToken_call_def Api_send_fields split: option.splits)

lemma isTokenExpired_resume_isInitialized:
  "isInitialized (snd (isTokenExpired_resume e x s)) = isInitialized s"
  by (auto simp: isTokenExpired_resume_def split: option.splits)

lemma initialize_resume_isInitialized:
  "isInitialized (shared c) \<Longrightarrow> isInitialized (shared (snd (initialize_resume e t c)))"
proof (cases t)
  case (AwaitExpiry x)
  then show "isInitialized (shared c) \<Longrightarrow> ?thesis"
    using isTokenExpired_resume_isInitialized[of e x "shared c"]
      refreshToken_call_isInitialized[of e "c\<lparr>shared := snd (isTokenExpired_resume e x (shared c))\<rparr>"]
    by (auto simp: split_beta)
qed (auto simp: Let_def setToken_def split: option.splits sum.splits)

lemma initialize_run_isInitialized:
  "isInitialized (shared c) \<Longrightarrow> isInitialized (shared (snd (initialize_run e evs (ts, c))))"
proof (induction evs arbitrary: ts c)
  case Nil
  then show ?case by simp
next
  case (Cons ev evs)
  show ?case
  proof (cases ev)
    case (Call i)
    then show ?thesis using Cons by (simp add: initialize_call_def)
  next
    case (Resume i)
    show ?thesis
    proof (cases "ts i")
      case None
      then show ?thesis using Resume Cons by simp
    next
      case (Some t)
      obtain t' c1 where r: "initialize_resume e t c = (t', c1)"
        by (cases "initialize_resume e t c")
      then have "isInitialized (shared c1)"
        using initialize_resume_isInitialized[of c e t] Cons.prems by simp
      then show ?thesis using Resume Some r Cons.IH by simp
    qed
  next
    case (Settle outcome)
    then show ?thesis
      using Cons by (simp add: refreshToken_settle_isInitialized)
  qed
qed

lemma initialize_run_late_call:
  assumes "isInitialized (shared c)"
  shows "fst (initialize_run e (evs @ [Call i]) (ts, c)) i = Some (Returned True)"
proof -
  obtain ts' c' where run: "initialize_run e evs (ts, c) = (ts', c')"
    by (cases "initialize_run e evs (ts, c)")
  then have "isInitialized (shared c')"
    using initialize_run_isInitialized[OF assms, of e evs ts] by simp
  then show ?thesis
    by (simp add: initialize_run_append run initialize_call_def)
qed

lemma Enhanced_request_first_success:
  assumes "fetch e (sent (snd (Enhanced_initialize e s)) @
             [build_request e endpoint opts (snd (Enhanced_initialize e s))]) =
           Response status (Inr data)"
      and "response_ok status"
  shows "Enhanced_request e endpoint opts s =
           (Inr data, Api_send e endpoint opts (snd (Enhanced_initialize e s)))"
proof -
  obtain b s0 where init: "Enhanced_initialize e s = (b, s0)"
    by (cases "Enhanced_initialize e s")
  have "Api_request e endpoint opts s0 = (Inr data, Api_send e endpoint opts s0)"
    using assms init by (simp add: Api_request_def Let_def Api_send_def Api_receive_def)
  then show ?thesis using init by (simp add: Enhanced_request_def)
qed

lemma getTokenExpiry_restored:
  "getTokenExpiry e (setToken tok (setBaseURL u s)) = getTokenExpiry e s"
  by (simp add: getTokenExpiry_def getItem_def setToken_def setBaseURL_def)

lemma initialize_overlap_start:
  assumes "\<not> isInitialized (shared c)" and "i \<noteq> j"
      and "truthy (getAuthToken (shared c))"
  shows "initialize_run e [Call i, Call j, Resume i, Resume j] (ts, c) =
     (ts(i \<mapsto> AwaitExpiry (getTokenExpiry e (shared c)),
         j \<mapsto> AwaitExpiry (getTokenExpiry e (shared c))),
      c\<lparr>shared := setToken (getAuthToken (shared c)) (setBaseURL config_baseURL (shared c))\<rparr>)"
  using assms
  by (simp add: initialize_call_def Let_def getTokenExpiry_restored)
     (simp add: getAuthToken_def getItem_def getTokenExpiry_def setToken_def setBaseURL_def
        fun_upd_twist)

lemma initialize_overlap_checked:
  assumes fresh: "\<not> isInitialized (shared c)" and idle: "refreshPromise c = None"
      and ij: "i \<noteq> j"
      and tok: "truthy (getAuthToken (shared c))"
      and expiry: "getTokenExpiry e (shared c) = Some d"
  shows "fst (initialize_run e [Call i, Call j, Resume i, Resume j, Resume i, Resume j] (ts, c)) i =
           Some (if (case d of None \<Rightarrow> False | Some t \<Rightarrow> t < clock e (ticks (shared c)))
                 then AwaitRefresh (promises c) else Returned True)
       \<and> fst (initialize_run e [Call i, Call j, Resume i, Resume j, Resume i, Resume j] (ts, c)) j =
           Some (if (case d of None \<Rightarrow> False | Some t \<Rightarrow> t < clock e (Suc (ticks (shared c))))
                 then AwaitRefresh (promises c) else Returned True)
       \<and> ticks (shared (snd (initialize_run e
             [Call i, Call j, Resume i, Resume j, Resume i, Resume j] (ts, c)))) =
           ticks (shared c) + 2
       \<and> token (shared (snd (initialize_run e
             [Call i, Call j, Resume i, Resume j, Resume i, Resume j] (ts, c)))) =
           getAuthToken (shared c)
       \<and> sent (shared (snd (initialize_run e
             [Call i, Call j, Resume i, Resume j, Resume i, Resume j] (ts, c)))) =
           sent (shared c) @
           (if (case d of None \<Rightarrow> False
                | Some t \<Rightarrow> t < clock e (ticks (shared c)) \<or> t < clock e (Suc (ticks (shared c))))
            then [build_request e ''/refresh'' post_options
                    (setToken (getAuthToken (shared c)) (setBaseURL config_baseURL (shared c)))]
            else [])"
proof -
  have run: "initialize_run e [Call i, Call j, Resume i, Resume j, Resume i, Resume j] (ts, c) =
      initialize_run e [Resume i, Resume j]
        (ts(i \<mapsto> AwaitExpiry (Some d), j \<mapsto> AwaitExpiry (Some d)),
         c\<lparr>shared := setToken (getAuthToken (shared c)) (setBaseURL config_baseURL (shared c))\<rparr>)"
    using initialize_run_append[of e "[Call i, Call j, Resume i, Resume j]" "[Resume i, Resume j]" "(ts, c)"]
      initialize_overlap_start[OF fresh ij tok, of e ts] expiry
    by simp
  show ?thesis
    unfolding run using ij idle
    by (cases d)
       (auto simp: isTokenExpired_resume_def refreshToken_call_def setToken_def setBaseURL_def
          Api_send_def build_request_def getHeaders_def)
qed

lemma initialize_overlap_no_expiry:
  assumes fresh: "\<not> isInitialized (shared c)" and idle: "refreshPromise c = None"
      and ij: "i \<noteq> j"
      and tok: "truthy (getAuthToken (shared c))"
      and expiry: "getTokenExpiry e (shared c) = None"
  shows "fst (initialize_run e [Call i, Call j, Resume i, Resume j, Resume i, Resume j] (ts, c)) i =
           Some (AwaitRefresh (promises c))
       \<and> fst (initialize_run e [Call i, Call j, Resume i, Resume j, Resume i, Resume j] (ts, c)) j =
           Some (AwaitRefresh (promises c))
       \<and> token (shared (snd (initialize_run e
             [Call i, Call j, Resume i, Resume j, Resume i, Resume j] (ts, c)))) =
           getAuthToken (shared c)
       \<and> sent (shared (snd (initialize_run e
             [Call i, Call j, Resume i, Resume j, Resume i, Resume j] (ts, c)))) =
           sent (shared c) @
           [build_request e ''/refresh'' post_options
              (setToken (getAuthToken (shared c)) (setBaseURL config_baseURL (shared c)))]"
proof -
  have run: "initialize_run e [Call i, Call j, Resume i, Resume j, Resume i, Resume j] (ts, c) =
      initialize_run e [Resume i, Resume j]
        (ts(i \<mapsto> AwaitExpiry None, j \<mapsto> AwaitExpiry None),
         c\<lparr>shared := setToken (getAuthToken (shared c)) (setBaseURL config_baseURL (shared c))\<rparr>)"
    using initialize_run_append[of e "[Call i, Call j, Resume i, Resume j]" "[Resume i, Resume j]" "(ts, c)"]
      initialize_overlap_start[OF fresh ij tok, of e ts] expiry
    by simp
  show ?thesis
    unfolding run using ij idle
    by (auto simp: isTokenExpired_resume_def refreshToken_call_def setToken_def setBaseURL_def
          Api_send_def build_request_def getHeaders_def)
qed

lemma AuthProvider_no_roles: "AuthProvider_getHighestRoleLevel toNum [] = Inr (Finite 1)"
  by (simp add: AuthProvider_getHighestRoleLevel_def)

section \<open>StorageService.clearAuthData\<close>

text \<open>
  C4. For every state of the store, \<open>clearAuthData()\<close> rejects with the TypeError of
  calling \<open>this.removeTokenExpiry\<close>, which the class does not define. By then it has
  removed the auth-token and refresh-token keys and nothing else: the token-expiry,
  user-profile, user-roles and user-permissions keys hold what they held, and the rest of
  the state is untouched.
\<close>

theorem clearAuthData_rejects_after_two_removals:
  "clearAuthData s =
     (Inl (TypeError ''this.removeTokenExpiry is not a function''),
      s\<lparr>memoryStorage := (memoryStorage s)(key_authToken := None, key_refreshToken := None)\<rparr>)
   \<and> memoryStorage (snd (clearAuthData s)) key_authToken = None
   \<and> memoryStorage (snd (clearAuthData s)) key_refreshToken = None
   \<and> memoryStorage (snd (clearAuthData s)) key_tokenExpiry = memoryStorage s key_tokenExpiry
   \<and> memoryStorage (snd (clearAuthData s)) key_userProfile = memoryStorage s key_userProfile
   \<and> memoryStorage (snd (clearAuthData s)) key_userRoles = memoryStorage s key_userRoles
   \<and> memoryStorage (snd (clearAuthData s)) key_userPermissions =
       memoryStorage s key_userPermissions"
  by (simp add: clearAuthData_eq key_defs)

text \<open>
  C5. The claim is that no storage operation rejects. \<open>clearAuthData()\<close> on a store that
  holds a session rejects with a TypeError, and leaves the expiry and the profile behind.
\<close>

theorem clearAuthData_rejects_on_stored_session:
  "fst (clearAuthData logged_in_state) =
     Inl (TypeError ''this.removeTokenExpiry is not a function'')
   \<and> memoryStorage (snd (clearAuthData logged_in_state)) key_tokenExpiry =
       Some (JStr ''2030-01-01T00:00:00.000Z'')
   \<and> memoryStorage (snd (clearAuthData logged_in_state)) key_userProfile =
       Some (JObj [(''id'', JNum (Finite 7)), (''name'', JStr ''Ana'')])"
  by (simp add: clearAuthData_eq logged_in_state_def stored_session_def key_defs)

section \<open>ApiService.request: the error of a failed response\<close>

text \<open>
  C7, as the code has it. For every response with a status outside 200..299 whose body
  parses to a value that has properties, \<open>request\<close> fails with an \<open>Error\<close> whose message
  is the \<open>message\<close> field of the body when that is truthy, and \<open>HTTP <status>\<close> when it
  is not. The error has a message and nothing else: the status is in it only through
  the fallback text.
\<close>

theorem request_error_message:
  assumes "fetch e (sent s @ [build_request e endpoint opts s]) = Response status (Inr data)"
      and "\<not> response_ok status"
      and "getProp data ''message'' = Inr m"
  shows "fst (Api_request e endpoint opts s) =
           Inl (Error (if truthy m then js_String e m else ''HTTP '' @ show_nat status))"
  using assms by (simp add: fst_Api_request Api_receive_def)

theorem request_error_message_witness:
  "fetch (scripted [Response 401 (Inr (JObj [(''success'', JBool False)]))])
     (sent logged_in_state @
      [build_request (scripted [Response 401 (Inr (JObj [(''success'', JBool False)]))])
         ''/user'' no_options logged_in_state]) =
     Response 401 (Inr (JObj [(''success'', JBool False)]))
   \<and> \<not> response_ok 401
   \<and> getProp (JObj [(''success'', JBool False)]) ''message'' = Inr JUndefined
   \<and> fst (Api_request (scripted [Response 401 (Inr (JObj [(''success'', JBool False)]))])
          ''/user'' no_options logged_in_state) = Inl (Error ''HTTP 401'')"
  using request_error_message[of "scripted [Response 401 (Inr (JObj [(''success'', JBool False)]))]"
      logged_in_state "''/user''" no_options 401 "JObj [(''success'', JBool False)]" JUndefined]
  by (simp add: scripted_def logged_in_state_def fresh_state_def response_ok_def)

text \<open>
  C7 as stated fails: a 401 and a 500 response with the same server message give the same
  error, so the error does not carry the status code.
\<close>

theorem request_error_without_status:
  "fst (Api_request (scripted [Response 401 (Inr (JObj [(''message'', JStr ''Request failed'')]))])
          ''/user'' no_options logged_in_state) = Inl (Error ''Request failed'')
   \<and> fst (Api_request (scripted [Response 500 (Inr (JObj [(''message'', JStr ''Request failed'')]))])
          ''/user'' no_options logged_in_state) = Inl (Error ''Request failed'')"
  by (simp add: fst_Api_request Api_receive_def scripted_def logged_in_state_def fresh_state_def
      response_ok_def js_String_def)

section \<open>ApiService.registerAnalyticsEvent\<close>

lemma invalid_event_sends_nothing:
  "validate_event toNum ev = Inl err \<Longrightarrow>
   Api_registerAnalyticsEvent e toNum ev s = (Inl err, s)"
  by (simp add: Api_registerAnalyticsEvent_def)

lemma latitude_95_rejected:
  "Api_registerAnalyticsEvent e toNum
     (JObj [(''device_uuid'', JStr ''d''), (''event_keyword'', JStr ''e''),
            (''latitude'', JNum (Finite 95))]) s =
   (Inl (Error ''latitude must be a number between -90 and 90''), s)"
  by (simp add: Api_registerAnalyticsEvent_def validate_event_def require_field_def
      check_length_def check_range_def js_Number_def)

text \<open>
  C10. The claim is that a supplied latitude that is not a number in [-90, 90] fails
  validation before any request. NaN is of type number and both comparisons with it are
  false, so the event passes validation and the request is sent.
\<close>

theorem latitude_NaN_accepted:
  "validate_event not_numeric
     (JObj [(''device_uuid'', JStr ''d''), (''event_keyword'', JStr ''e''),
            (''latitude'', JNum NaN)]) = Inr ()
   \<and> map url (sent (snd (Api_registerAnalyticsEvent
        (scripted [Response 200 (Inr (JObj [(''success'', JBool True)]))]) not_numeric
        (JObj [(''device_uuid'', JStr ''d''), (''event_keyword'', JStr ''e''),
               (''latitude'', JNum NaN)]) logged_in_state))) =
       [''https://gu.mindware.com.mx/api/v1/analytics/register-event'']"
  by (simp add: Api_registerAnalyticsEvent_def validate_event_def require_field_def
      check_length_def check_range_def check_accuracy_def js_Number_def sent_Api_request
      url_build_request logged_in_state_def fresh_state_def)

section \<open>getHighestRoleLevel\<close>

text \<open>
  C9. The claim is that \<open>getHighestRoleLevel()\<close> returns the maximum level over the cached
  roles. The AuthProvider's does (lemmas \<open>AuthProvider_no_roles\<close> and
  \<open>AuthProvider_max\<close>). The service's reads \<open>highest_role_level\<close> from the envelope of
  \<open>getUserPermissions()\<close>, and the envelope built from the cache has no such field: for
  one and the same user it answers 3 while the permissions come from the server and 1 once
  they are cached, and with an admin role of level 4 in the store it answers 1 where the
  AuthProvider answers 4.
\<close>

theorem service_level_lost_in_cache:
  "fst (Enhanced_getHighestRoleLevel permissions_server fresh_state) = JNum (Finite 3)
   \<and> fst (Enhanced_getHighestRoleLevel permissions_server
          (snd (Enhanced_getHighestRoleLevel permissions_server fresh_state))) = JNum (Finite 1)
   \<and> getUserRoles logged_in_state = JArr [role_object ''admin'' 4]
   \<and> fst (Enhanced_getHighestRoleLevel permissions_server logged_in_state) = JNum (Finite 1)
   \<and> AuthProvider_getHighestRoleLevel not_numeric [role_object ''admin'' 4] = Inr (Finite 4)"
proof -
  have fetched: "Enhanced_getUserPermissions permissions_server False fresh_state =
      (Inr (JObj [(''success'', JBool True),
        (''data'', JObj [(''permissions'', JArr [JStr ''view_properties'']),
                         (''highest_role_level'', JNum (Finite 3))])]),
       (Api_send permissions_server ''/user/permissions'' no_options
          (fresh_state\<lparr>isInitialized := True\<rparr>))
         \<lparr>memoryStorage := [key_userPermissions \<mapsto> JArr [JStr ''view_properties'']]\<rparr>)"
    by (simp add: Enhanced_getUserPermissions_def Enhanced_request_def Enhanced_initialize_def
        Api_request_def Let_def Api_receive_def Api_send_def permissions_server_fetch
        response_ok_def fresh_state_def success_and_def storeUserPermissions_def setItem_def
        getUserPermissions_def getAuthToken_def getItem_def setBaseURL_def config_baseURL_def)
  have first: "Enhanced_getHighestRoleLevel permissions_server fresh_state =
      (JNum (Finite 3),
       (Api_send permissions_server ''/user/permissions'' no_options
          (fresh_state\<lparr>isInitialized := True\<rparr>))
         \<lparr>memoryStorage := [key_userPermissions \<mapsto> JArr [JStr ''view_properties'']]\<rparr>)"
    by (simp add: Enhanced_getHighestRoleLevel_def fetched success_and_def)
  have second: "fst (Enhanced_getHighestRoleLevel permissions_server
          (snd (Enhanced_getHighestRoleLevel permissions_server fresh_state))) = JNum (Finite 1)"
    unfolding first
    by (simp add: Enhanced_level_cached getUserPermissions_def getItem_def)
  have roles: "getUserRoles logged_in_state = JArr [role_object ''admin'' 4]"
    by (simp add: getUserRoles_def getItem_def logged_in_state_def stored_session_def key_defs)
  have cached: "fst (Enhanced_getHighestRoleLevel permissions_server logged_in_state) = JNum (Finite 1)"
    by (simp add: Enhanced_level_cached getUserPermissions_def getItem_def logged_in_state_def
        stored_session_def key_defs)
  have provider: "AuthProvider_getHighestRoleLevel not_numeric [role_object ''admin'' 4] =
      Inr (Finite 4)"
    by (simp add: AuthProvider_getHighestRoleLevel_def role_object_def Math_max_def js_Number_def)
  show ?thesis using first second roles cached provider by simp
qed

section \<open>EnhancedApiService.request: refresh and retry\<close>



section \<open>EnhancedApiService.logout\<close>

text \<open>
  C3, as the code has it. When the remote logout answers with a failure envelope (a
  response in the success range whose \<open>success\<close> field is falsy), \<open>logout()\<close> returns
  that envelope and does no local cleanup: apart from the request sent, the state is
  as before. For every other outcome of the remote call (a success envelope, a response
  outside the success range, an unreadable body, a network error) \<open>logout()\<close> calls
  \<open>clearAuthData()\<close>, and the auth-token and refresh-token keys are gone afterwards.
  After a success envelope the in-memory token is cleared.
\<close>

theorem logout_cleanup_by_outcome:
  assumes "fetch e (sent s @ [build_request e ''/logout'' post_options s]) = outcome"
  shows "((\<exists>status ok. outcome = Response status (Inr data) \<and> response_ok status
              \<and> getProp data ''success'' = Inr ok \<and> \<not> truthy ok) \<longrightarrow>
            Enhanced_logout e s = (Inr data, Api_send e ''/logout'' post_options s))
       \<and> ((\<nexists>status data ok. outcome = Response status (Inr data) \<and> response_ok status
              \<and> getProp data ''success'' = Inr ok \<and> \<not> truthy ok) \<longrightarrow>
            memoryStorage (snd (Enhanced_logout e s)) key_authToken = None
          \<and> memoryStorage (snd (Enhanced_logout e s)) key_refreshToken = None)
       \<and> ((\<exists>status ok. outcome = Response status (Inr data) \<and> response_ok status
              \<and> getProp data ''success'' = Inr ok \<and> truthy ok) \<longrightarrow>
            token (snd (Enhanced_logout e s)) = JNull
          \<and> \<not> isAuthenticated (snd (Enhanced_logout e s)))"
  using assms
  by (auto simp: Enhanced_logout_def Api_logout_def Api_request_def Let_def Api_receive_def
      cleanup_and_rethrow_eq clearAuthData_eq Api_send_def clearToken_def key_defs
      split: sum.splits fetch_outcome.splits if_splits)

theorem logout_cleanup_by_outcome_witness:
  "fetch (scripted []) (sent logged_in_state @
       [build_request (scripted []) ''/logout'' post_options logged_in_state]) = network_failure
   \<and> memoryStorage (snd (Enhanced_logout (scripted []) logged_in_state)) key_authToken = None
   \<and> memoryStorage (snd (Enhanced_logout (scripted []) logged_in_state)) key_refreshToken = None
   \<and> fetch (scripted [Response 200 (Inr (JObj [(''success'', JBool False)]))])
        (sent logged_in_state @
         [build_request (scripted [Response 200 (Inr (JObj [(''success'', JBool False)]))])
            ''/logout'' post_options logged_in_state]) =
       Response 200 (Inr (JObj [(''success'', JBool False)]))
   \<and> Enhanced_logout (scripted [Response 200 (Inr (JObj [(''success'', JBool False)]))])
        logged_in_state =
       (Inr (JObj [(''success'', JBool False)]),
        Api_send (scripted [Response 200 (Inr (JObj [(''success'', JBool False)]))])
          ''/logout'' post_options logged_in_state)
   \<and> fetch (scripted [Response 200 (Inr (JObj [(''success'', JBool True)]))])
        (sent logged_in_state @
         [build_request (scripted [Response 200 (Inr (JObj [(''success'', JBool True)]))])
            ''/logout'' post_options logged_in_state]) =
       Response 200 (Inr (JObj [(''success'', JBool True)]))
   \<and> token (snd (Enhanced_logout (scripted [Response 200 (Inr (JObj [(''success'', JBool True)]))])
        logged_in_state)) = JNull"
proof -
  have h: "fetch (scripted []) (sent logged_in_state @
       [build_request (scripted []) ''/logout'' post_options logged_in_state]) = network_failure"
    by (simp add: scripted_def)
  have a: "memoryStorage (snd (Enhanced_logout (scripted []) logged_in_state)) key_authToken = None
   \<and> memoryStorage (snd (Enhanced_logout (scripted []) logged_in_state)) key_refreshToken = None"
    using logout_cleanup_by_outcome[OF h, of JNull] h
    by (simp add: network_failure_def)
  have h2: "fetch (scripted [Response 200 (Inr (JObj [(''success'', JBool False)]))])
        (sent logged_in_state @
         [build_request (scripted [Response 200 (Inr (JObj [(''success'', JBool False)]))])
            ''/logout'' post_options logged_in_state]) =
       Response 200 (Inr (JObj [(''success'', JBool False)]))"
    by (simp add: scripted_def logged_in_state_def fresh_state_def)
  have b: "Enhanced_logout (scripted [Response 200 (Inr (JObj [(''success'', JBool False)]))])
        logged_in_state =
       (Inr (JObj [(''success'', JBool False)]),
        Api_send (scripted [Response 200 (Inr (JObj [(''success'', JBool False)]))])
          ''/logout'' post_options logged_in_state)"
    using logout_cleanup_by_outcome[OF h2, of "JObj [(''success'', JBool False)]"]
    by (simp add: response_ok_def)
  have h3: "fetch (scripted [Response 200 (Inr (JObj [(''success'', JBool True)]))])
        (sent logged_in_state @
         [build_request (scripted [Response 200 (Inr (JObj [(''success'', JBool True)]))])
            ''/logout'' post_options logged_in_state]) =
       Response 200 (Inr (JObj [(''success'', JBool True)]))"
    by (simp add: scripted_def logged_in_state_def fresh_state_def)
  have c: "token (snd (Enhanced_logout
        (scripted [Response 200 (Inr (JObj [(''success'', JBool True)]))]) logged_in_state)) = JNull"
    using logout_cleanup_by_outcome[OF h3, of "JObj [(''success'', JBool True)]"]
    by (simp add: response_ok_def)
  show ?thesis using h a h2 b h3 c by blast
qed

text \<open>
  C3 as stated fails: after a failure envelope the token and the whole stored session are
  still there.
\<close>

theorem logout_failure_envelope_keeps_session:
  "token (snd (Enhanced_logout
       (scripted [Response 200 (Inr (JObj [(''success'', JBool False),
                                          (''message'', JStr ''Logout failed'')]))])
       logged_in_state)) = JStr ''tok-1''
   \<and> memoryStorage (snd (Enhanced_logout
       (scripted [Response 200 (Inr (JObj [(''success'', JBool False),
                                          (''message'', JStr ''Logout failed'')]))])
       logged_in_state)) = stored_session"
  by (simp add: Enhanced_logout_def Api_logout_def Api_request_def Let_def Api_receive_def
      Api_send_def scripted_def response_ok_def logged_in_state_def fresh_state_def)

section \<open>EnhancedApiService.getUserProfile\<close>

text \<open>
  C8. With a profile in the store, \<open>getUserProfile(false)\<close> returns it in a success
  envelope and leaves the state as it is, so no request is sent. \<open>getUserProfile(true)\<close>,
  or \<open>getUserProfile(false)\<close> with no profile to read from the store, always sends a
  request for \<open>/user\<close>. When the server answers that request with a successful envelope
  that has a user, the call returns the envelope and the only changes are the request
  sent and the stored profile, which is now that user. The same holds of whatever
  successful envelope with a user \<open>request\<close> returns, also after a refresh and a retry.
\<close>

theorem getUserProfile_cache:
  "(memoryStorage s key_userProfile = Some profile \<and> truthy profile \<longrightarrow>
      Enhanced_getUserProfile e False s =
        (Inr (JObj [(''success'', JBool True), (''data'', JObj [(''user'', profile)])]), s))
   \<and> (forceRefresh \<or> \<not> truthy (getUserProfile s) \<longrightarrow>
        (\<exists>before after.
           sent (snd (Enhanced_getUserProfile e forceRefresh s)) =
             sent s @ before
               @ [build_request e ''/user'' no_options (snd (Enhanced_initialize e s))] @ after)
      \<and> (\<forall>status data user.
            fetch e (sent (snd (Enhanced_initialize e s)) @
               [build_request e ''/user'' no_options (snd (Enhanced_initialize e s))]) =
              Response status (Inr data)
            \<and> response_ok status \<and> success_and data ''user'' = Inr user \<and> truthy user \<longrightarrow>
            Enhanced_getUserProfile e forceRefresh s =
              (Inr data,
               (Api_send e ''/user'' no_options (snd (Enhanced_initialize e s)))
                 \<lparr>memoryStorage :=
                    (memoryStorage (snd (Enhanced_initialize e s)))(key_userProfile \<mapsto> user)\<rparr>))
      \<and> (\<forall>response s1 user.
            Enhanced_request e ''/user'' no_options s = (Inr response, s1)
            \<and> success_and response ''user'' = Inr user \<and> truthy user \<longrightarrow>
            Enhanced_getUserProfile e forceRefresh s =
              (Inr response, s1\<lparr>memoryStorage := (memoryStorage s1)(key_userProfile \<mapsto> user)\<rparr>)))"
proof (intro conjI impI allI)
  assume "memoryStorage s key_userProfile = Some profile \<and> truthy profile"
  then show "Enhanced_getUserProfile e False s =
        (Inr (JObj [(''success'', JBool True), (''data'', JObj [(''user'', profile)])]), s)"
    by (simp add: Enhanced_getUserProfile_def getUserProfile_def getItem_def)
next
  assume miss: "forceRefresh \<or> \<not> truthy (getUserProfile s)"
  obtain r s1 where req: "Enhanced_request e ''/user'' no_options s = (r, s1)"
    by (cases "Enhanced_request e ''/user'' no_options s")
  have "sent (snd (Enhanced_getUserProfile e forceRefresh s)) = sent s1"
    using miss req
    by (auto simp: Enhanced_getUserProfile_def storeUserProfile_def setItem_def
        split: sum.splits)
  then show "\<exists>before after.
           sent (snd (Enhanced_getUserProfile e forceRefresh s)) =
             sent s @ before
               @ [build_request e ''/user'' no_options (snd (Enhanced_initialize e s))] @ after"
    using Enhanced_request_sends[of e "''/user''" no_options s] req by simp
next
  fix status data user
  assume miss: "forceRefresh \<or> \<not> truthy (getUserProfile s)"
  assume answer: "fetch e (sent (snd (Enhanced_initialize e s)) @
               [build_request e ''/user'' no_options (snd (Enhanced_initialize e s))]) =
              Response status (Inr data)
            \<and> response_ok status \<and> success_and data ''user'' = Inr user \<and> truthy user"
  then have "Enhanced_request e ''/user'' no_options s =
           (Inr data, Api_send e ''/user'' no_options (snd (Enhanced_initialize e s)))"
    using Enhanced_request_first_success by blast
  then show "Enhanced_getUserProfile e forceRefresh s =
              (Inr data,
               (Api_send e ''/user'' no_options (snd (Enhanced_initialize e s)))
                 \<lparr>memoryStorage :=
                    (memoryStorage (snd (Enhanced_initialize e s)))(key_userProfile \<mapsto> user)\<rparr>)"
    using miss answer
    by (auto simp: Enhanced_getUserProfile_def storeUserProfile_def setItem_def Api_send_fields)
next
  fix response s1 user
  assume miss: "forceRefresh \<or> \<not> truthy (getUserProfile s)"
  assume "Enhanced_request e ''/user'' no_options s = (Inr response, s1)
            \<and> success_and response ''user'' = Inr user \<and> truthy user"
  then show "Enhanced_getUserProfile e forceRefresh s =
              (Inr response, s1\<lparr>memoryStorage := (memoryStorage s1)(key_userProfile \<mapsto> user)\<rparr>)"
    using miss
    by (auto simp: Enhanced_getUserProfile_def storeUserProfile_def setItem_def)
qed

theorem getUserProfile_cache_witness:
  "memoryStorage logged_in_state key_userProfile =
     Some (JObj [(''id'', JNum (Finite 7)), (''name'', JStr ''Ana'')])
   \<and> Enhanced_getUserProfile profile_server False logged_in_state =
       (Inr (JObj [(''success'', JBool True),
                   (''data'', JObj [(''user'', JObj [(''id'', JNum (Finite 7)), (''name'', JStr ''Ana'')])])]),
        logged_in_state)
   \<and> fst (Enhanced_getUserProfile profile_server True logged_in_state) =
       Inr (JObj [(''success'', JBool True),
        (''data'', JObj [(''user'', JObj [(''id'', JNum (Finite 7)), (''name'', JStr ''Ana Maria'')])])])
   \<and> memoryStorage (snd (Enhanced_getUserProfile profile_server True logged_in_state))
        key_userProfile = Some (JObj [(''id'', JNum (Finite 7)), (''name'', JStr ''Ana Maria'')])
   \<and> map url (sent (snd (Enhanced_getUserProfile profile_server True logged_in_state))) =
       [''https://gu.mindware.com.mx/api/v1/user'']"
proof -
  have stored: "memoryStorage logged_in_state key_userProfile =
     Some (JObj [(''id'', JNum (Finite 7)), (''name'', JStr ''Ana'')])"
    by (simp add: logged_in_state_def stored_session_def key_defs)
  have init: "snd (Enhanced_initialize profile_server logged_in_state) = logged_in_state"
    by (simp add: Enhanced_initialize_done logged_in_state_def)
  have answer: "fetch profile_server (sent (snd (Enhanced_initialize profile_server logged_in_state)) @
       [build_request profile_server ''/user'' no_options
          (snd (Enhanced_initialize profile_server logged_in_state))]) =
      Response 200 (Inr (JObj [(''success'', JBool True),
        (''data'', JObj [(''user'', JObj [(''id'', JNum (Finite 7)), (''name'', JStr ''Ana Maria'')])])]))"
    unfolding init by (simp add: logged_in_state_def fresh_state_def profile_server_fetch)
  have ok: "response_ok 200" by (simp add: response_ok_def)
  have user: "success_and (JObj [(''success'', JBool True),
        (''data'', JObj [(''user'', JObj [(''id'', JNum (Finite 7)), (''name'', JStr ''Ana Maria'')])])])
        ''user'' = Inr (JObj [(''id'', JNum (Finite 7)), (''name'', JStr ''Ana Maria'')])"
    by (simp add: success_and_def)
  have tr: "truthy (JObj [(''id'', JNum (Finite 7)), (''name'', JStr ''Ana Maria'')])" by simp
  have miss: "True \<or> \<not> truthy (getUserProfile logged_in_state)" by simp
  note T = getUserProfile_cache[where s = logged_in_state and e = profile_server
        and forceRefresh = True
        and profile = "JObj [(''id'', JNum (Finite 7)), (''name'', JStr ''Ana'')]"]
  have cached: "Enhanced_getUserProfile profile_server False logged_in_state =
       (Inr (JObj [(''success'', JBool True),
                   (''data'', JObj [(''user'', JObj [(''id'', JNum (Finite 7)), (''name'', JStr ''Ana'')])])]),
        logged_in_state)"
    using T stored by simp
  have fetched: "Enhanced_getUserProfile profile_server True logged_in_state =
      (Inr (JObj [(''success'', JBool True),
        (''data'', JObj [(''user'', JObj [(''id'', JNum (Finite 7)), (''name'', JStr ''Ana Maria'')])])]),
       (Api_send profile_server ''/user'' no_options
          (snd (Enhanced_initialize profile_server logged_in_state)))
         \<lparr>memoryStorage :=
            (memoryStorage (snd (Enhanced_initialize profile_server logged_in_state)))
              (key_userProfile \<mapsto> JObj [(''id'', JNum (Finite 7)), (''name'', JStr ''Ana Maria'')])\<rparr>)"
    by (rule T[THEN conjunct2, THEN mp, OF miss, THEN conjunct2, THEN conjunct1, rule_format,
          OF conjI[OF answer conjI[OF ok conjI[OF user tr]]]])
  have f1: "fst (Enhanced_getUserProfile profile_server True logged_in_state) =
       Inr (JObj [(''success'', JBool True),
        (''data'', JObj [(''user'', JObj [(''id'', JNum (Finite 7)), (''name'', JStr ''Ana Maria'')])])])"
    by (simp add: fetched)
  have f2: "memoryStorage (snd (Enhanced_getUserProfile profile_server True logged_in_state))
        key_userProfile = Some (JObj [(''id'', JNum (Finite 7)), (''name'', JStr ''Ana Maria'')])"
    by (simp add: fetched)
  have f3: "map url (sent (snd (Enhanced_getUserProfile profile_server True logged_in_state))) =
       [''https://gu.mindware.com.mx/api/v1/user'']"
    unfolding fetched init
    by (simp add: Api_send_fields url_build_request logged_in_state_def fresh_state_def)
  show ?thesis
    using stored cached f1 f2 f3 by blast
qed

section \<open>EnhancedApiService.refreshToken: one flight\<close>

text \<open>
  C2. Let \<open>n\<close> calls of \<open>refreshToken()\<close>, \<open>n\<close> at least 2, be made with no refresh
  in flight before the first and none settling in between. Then all \<open>n\<close> callers hold the
  same promise, exactly one request has been sent, for \<open>/refresh\<close>, none is added when
  it settles, and whatever its outcome all callers get the same result.
\<close>

theorem refreshToken_single_flight:
  assumes "refreshPromise c = None" and "2 \<le> n"
  shows "fst (refreshToken_calls e n c) = replicate n (promises c)
       \<and> sent (shared (snd (refreshToken_calls e n c))) =
           sent (shared c) @ [build_request e ''/refresh'' post_options (shared c)]
       \<and> sent (shared (refreshToken_settle e outcome (snd (refreshToken_calls e n c)))) =
           sent (shared c) @ [build_request e ''/refresh'' post_options (shared c)]
       \<and> (\<exists>r. \<forall>p \<in> set (fst (refreshToken_calls e n c)).
              settled (refreshToken_settle e outcome (snd (refreshToken_calls e n c))) p = Some r)"
proof -
  from assms(2) obtain m where n: "n = Suc m" by (cases n) auto
  let ?c1 = "c\<lparr>shared := Api_send e ''/refresh'' post_options (shared c),
        refreshPromise := Some (promises c), promises := Suc (promises c)\<rparr>"
  have calls: "refreshToken_calls e n c = (replicate n (promises c), ?c1)"
    unfolding n using assms(1) by (rule refreshToken_calls_start)
  have flight: "refreshPromise ?c1 = Some (promises c)" by simp
  have sent1: "sent (shared ?c1) = sent (shared c) @ [build_request e ''/refresh'' post_options (shared c)]"
    by (simp add: Api_send_fields)
  from refreshToken_settle_result[OF flight, of e outcome]
  obtain r where r: "settled (refreshToken_settle e outcome ?c1) (promises c) = Some r"
    by blast
  have "\<forall>p \<in> set (replicate n (promises c)). settled (refreshToken_settle e outcome ?c1) p = Some r"
    using r by simp
  then show ?thesis
    using sent1 by (simp only: calls fst_conv snd_conv refreshToken_settle_sent) blast
qed

theorem refreshToken_single_flight_witness:
  "refreshPromise fresh_session = None \<and> (2::nat) \<le> 3
   \<and> fst (refreshToken_calls refresh_then_ok 3 fresh_session) = [0, 0, 0]
   \<and> map url (sent (shared (snd (refreshToken_calls refresh_then_ok 3 fresh_session)))) =
        [''https://gu.mindware.com.mx/api/v1/refresh'']
   \<and> map url (sent (shared (refreshToken_settle refresh_then_ok network_failure
          (snd (refreshToken_calls refresh_then_ok 3 fresh_session))))) =
        [''https://gu.mindware.com.mx/api/v1/refresh'']"
proof -
  have h1: "refreshPromise fresh_session = None" by (simp add: fresh_session_def)
  have h2: "(2::nat) \<le> 3" by simp
  have p: "promises fresh_session = 0" by (simp add: fresh_session_def)
  have u: "map url (sent (shared fresh_session) @
      [build_request refresh_then_ok ''/refresh'' post_options (shared fresh_session)]) =
        [''https://gu.mindware.com.mx/api/v1/refresh'']"
    by (simp add: fresh_session_def restored_state_def fresh_state_def url_build_request)
  have r: "replicate 3 (promises fresh_session) = [0, 0, 0]"
    by (simp add: p numeral_3_eq_3)
  note T = refreshToken_single_flight[OF h1 h2, of refresh_then_ok network_failure]
  have a: "fst (refreshToken_calls refresh_then_ok 3 fresh_session) = [0, 0, 0]"
    using T[THEN conjunct1] r by (simp only:)
  have b: "map url (sent (shared (snd (refreshToken_calls refresh_then_ok 3 fresh_session)))) =
        [''https://gu.mindware.com.mx/api/v1/refresh'']"
    using T[THEN conjunct2, THEN conjunct1] u by (simp only:)
  have c: "map url (sent (shared (refreshToken_settle refresh_then_ok network_failure
          (snd (refreshToken_calls refresh_then_ok 3 fresh_session))))) =
        [''https://gu.mindware.com.mx/api/v1/refresh'']"
    using T[THEN conjunct2, THEN conjunct2, THEN conjunct1] u by (simp only:)
  show ?thesis
    using h1 h2 a b c by (simp only: simp_thms)
qed

section \<open>EnhancedApiService.initialize\<close>

text \<open>
  C6, as the code has it. After a call of \<open>initialize()\<close> that returned \<open>true\<close>, the next
  call returns \<open>true\<close> and changes nothing. Once \<open>isInitialized\<close> is set, whatever calls
  run and settle afterwards, a further call returns \<open>true\<close> at once and changes nothing. A
  call made while the flag is not set, whether or not another call is on its way, starts
  its own run by reading the token from the store. Two such calls that overlap, with a
  token in the store and no refresh in flight, each restore the token and each check the
  expiry against a clock reading of their own; a call that finds the token expired waits
  for the refresh, and the two of them share one promise and one request for \<open>/refresh\<close>.
\<close>

theorem initialize_idempotent_after_success:
  "(fst (Enhanced_initialize e s) \<longrightarrow>
      Enhanced_initialize e (snd (Enhanced_initialize e s)) =
        (True, snd (Enhanced_initialize e s)))
   \<and> (isInitialized (shared c) \<longrightarrow>
        fst (initialize_run e (evs @ [Call i]) (ts, c)) i = Some (Returned True)
      \<and> snd (initialize_run e (evs @ [Call i]) (ts, c)) = snd (initialize_run e evs (ts, c)))
   \<and> (\<not> isInitialized (shared c) \<longrightarrow>
        initialize_call c =
          (AwaitToken (getAuthToken (shared c)),
           c\<lparr>shared := setBaseURL config_baseURL (shared c)\<rparr>))
   \<and> (\<not> isInitialized (shared c) \<and> refreshPromise c = None \<and> i \<noteq> j
        \<and> truthy (getAuthToken (shared c)) \<longrightarrow>
        (\<forall>d. getTokenExpiry e (shared c) = Some d \<longrightarrow>
           fst (initialize_run e [Call i, Call j, Resume i, Resume j, Resume i, Resume j] (ts, c)) i =
             Some (if (case d of None \<Rightarrow> False | Some t \<Rightarrow> t < clock e (ticks (shared c)))
                   then AwaitRefresh (promises c) else Returned True)
         \<and> fst (initialize_run e [Call i, Call j, Resume i, Resume j, Resume i, Resume j] (ts, c)) j =
             Some (if (case d of None \<Rightarrow> False
                       | Some t \<Rightarrow> t < clock e (Suc (ticks (shared c))))
                   then AwaitRefresh (promises c) else Returned True)
         \<and> ticks (shared (snd (initialize_run e
               [Call i, Call j, Resume i, Resume j, Resume i, Resume j] (ts, c)))) =
             ticks (shared c) + 2
         \<and> token (shared (snd (initialize_run e
               [Call i, Call j, Resume i, Resume j, Resume i, Resume j] (ts, c)))) =
             getAuthToken (shared c)
         \<and> sent (shared (snd (initialize_run e
               [Call i, Call j, Resume i, Resume j, Resume i, Resume j] (ts, c)))) =
             sent (shared c) @
             (if (case d of None \<Rightarrow> False
                  | Some t \<Rightarrow> t < clock e (ticks (shared c))
                             \<or> t < clock e (Suc (ticks (shared c))))
              then [build_request e ''/refresh'' post_options
                      (setToken (getAuthToken (shared c))
                         (setBaseURL config_baseURL (shared c)))]
              else []))
      \<and> (getTokenExpiry e (shared c) = None \<longrightarrow>
           fst (initialize_run e [Call i, Call j, Resume i, Resume j, Resume i, Resume j] (ts, c)) i =
             Some (AwaitRefresh (promises c))
         \<and> fst (initialize_run e [Call i, Call j, Resume i, Resume j, Resume i, Resume j] (ts, c)) j =
             Some (AwaitRefresh (promises c))
         \<and> token (shared (snd (initialize_run e
               [Call i, Call j, Resume i, Resume j, Resume i, Resume j] (ts, c)))) =
             getAuthToken (shared c)
         \<and> sent (shared (snd (initialize_run e
               [Call i, Call j, Resume i, Resume j, Resume i, Resume j] (ts, c)))) =
             sent (shared c) @
             [build_request e ''/refresh'' post_options
                (setToken (getAuthToken (shared c)) (setBaseURL config_baseURL (shared c)))]))"
proof (intro conjI)
  show "fst (Enhanced_initialize e s) \<longrightarrow>
      Enhanced_initialize e (snd (Enhanced_initialize e s)) =
        (True, snd (Enhanced_initialize e s))"
    by (simp add: Enhanced_initialize_true Enhanced_initialize_done)
next
  show "isInitialized (shared c) \<longrightarrow>
        fst (initialize_run e (evs @ [Call i]) (ts, c)) i = Some (Returned True)
      \<and> snd (initialize_run e (evs @ [Call i]) (ts, c)) = snd (initialize_run e evs (ts, c))"
  proof (intro impI conjI)
    assume "isInitialized (shared c)"
    then show "fst (initialize_run e (evs @ [Call i]) (ts, c)) i = Some (Returned True)"
      by (rule initialize_run_late_call)
  next
    assume init: "isInitialized (shared c)"
    obtain ts' c' where run: "initialize_run e evs (ts, c) = (ts', c')"
      by (cases "initialize_run e evs (ts, c)")
    then have "isInitialized (shared c')"
      using initialize_run_isInitialized[OF init, of e evs ts] by simp
    then show "snd (initialize_run e (evs @ [Call i]) (ts, c)) = snd (initialize_run e evs (ts, c))"
      by (simp add: initialize_run_append run initialize_call_def)
  qed
next
  show "\<not> isInitialized (shared c) \<longrightarrow>
        initialize_call c =
          (AwaitToken (getAuthToken (shared c)),
           c\<lparr>shared := setBaseURL config_baseURL (shared c)\<rparr>)"
    by (simp add: initialize_call_def Let_def getAuthToken_def getItem_def setBaseURL_def)
next
  show "\<not> isInitialized (shared c) \<and> refreshPromise c = None \<and> i \<noteq> j
        \<and> truthy (getAuthToken (shared c)) \<longrightarrow>
        (\<forall>d. getTokenExpiry e (shared c) = Some d \<longrightarrow>
           fst (initialize_run e [Call i, Call j, Resume i, Resume j, Resume i, Resume j] (ts, c)) i =
             Some (if (case d of None \<Rightarrow> False | Some t \<Rightarrow> t < clock e (ticks (shared c)))
                   then AwaitRefresh (promises c) else Returned True)
         \<and> fst (initialize_run e [Call i, Call j, Resume i, Resume j, Resume i, Resume j] (ts, c)) j =
             Some (if (case d of None \<Rightarrow> False
                       | Some t \<Rightarrow> t < clock e (Suc (ticks (shared c))))
                   then AwaitRefresh (promises c) else Returned True)
         \<and> ticks (shared (snd (initialize_run e
               [Call i, Call j, Resume i, Resume j, Resume i, Resume j] (ts, c)))) =
             ticks (shared c) + 2
         \<and> token (shared (snd (initialize_run e
               [Call i, Call j, Resume i, Resume j, Resume i, Resume j] (ts, c)))) =
             getAuthToken (shared c)
         \<and> sent (shared (snd (initialize_run e
               [Call i, Call j, Resume i, Resume j, Resume i, Resume j] (ts, c)))) =
             sent (shared c) @
             (if (case d of None \<Rightarrow> False
                  | Some t \<Rightarrow> t < clock e (ticks (shared c))
                             \<or> t < clock e (Suc (ticks (shared c))))
              then [build_request e ''/refresh'' post_options
                      (setToken (getAuthToken (shared c))
                         (setBaseURL config_baseURL (shared c)))]
              else []))
      \<and> (getTokenExpiry e (shared c) = None \<longrightarrow>
           fst (initialize_run e [Call i, Call j, Resume i, Resume j, Resume i, Resume j] (ts, c)) i =
             Some (AwaitRefresh (promises c))
         \<and> fst (initialize_run e [Call i, Call j, Resume i, Resume j, Resume i, Resume j] (ts, c)) j =
             Some (AwaitRefresh (promises c))
         \<and> token (shared (snd (initialize_run e
               [Call i, Call j, Resume i, Resume j, Resume i, Resume j] (ts, c)))) =
             getAuthToken (shared c)
         \<and> sent (shared (snd (initialize_run e
               [Call i, Call j, Resume i, Resume j, Resume i, Resume j] (ts, c)))) =
             sent (shared c) @
             [build_request e ''/refresh'' post_options
                (setToken (getAuthToken (shared c)) (setBaseURL config_baseURL (shared c)))])"
    using initialize_overlap_checked[of c i j e _ ts] initialize_overlap_no_expiry[of c i j e ts]
    by blast
qed

theorem initialize_idempotent_after_success_witness:
  "fst (Enhanced_initialize (scripted []) restored_state)
   \<and> Enhanced_initialize (scripted []) (snd (Enhanced_initialize (scripted []) restored_state)) =
       (True, snd (Enhanced_initialize (scripted []) restored_state))
   \<and> isInitialized (shared (fresh_session\<lparr>shared := logged_in_state\<rparr>))
   \<and> fst (initialize_run (scripted []) ([Resume 2, Settle network_failure] @ [Call 1])
          (fst no_calls, fresh_session\<lparr>shared := logged_in_state\<rparr>)) 1 = Some (Returned True)
   \<and> \<not> isInitialized (shared fresh_session)
   \<and> initialize_call fresh_session =
       (AwaitToken (JStr ''tok-1''),
        fresh_session\<lparr>shared := setBaseURL config_baseURL (shared fresh_session)\<rparr>)
   \<and> \<not> isInitialized (shared stale_session) \<and> refreshPromise stale_session = None
   \<and> (1::nat) \<noteq> 2 \<and> truthy (getAuthToken (shared stale_session))
   \<and> getTokenExpiry (scripted []) (shared stale_session) = Some (Some 1577836800000)
   \<and> fst (initialize_run (scripted []) [Call 1, Call 2, Resume 1, Resume 2, Resume 1, Resume 2]
          (fst no_calls, stale_session)) 1 = Some (AwaitRefresh 0)
   \<and> fst (initialize_run (scripted []) [Call 1, Call 2, Resume 1, Resume 2, Resume 1, Resume 2]
          (fst no_calls, stale_session)) 2 = Some (AwaitRefresh 0)
   \<and> ticks (shared (snd (initialize_run (scripted [])
          [Call 1, Call 2, Resume 1, Resume 2, Resume 1, Resume 2]
          (fst no_calls, stale_session)))) = 2
   \<and> map url (sent (shared (snd (initialize_run (scripted [])
          [Call 1, Call 2, Resume 1, Resume 2, Resume 1, Resume 2]
          (fst no_calls, stale_session))))) = [''https://gu.mindware.com.mx/api/v1/refresh'']"
proof -
  have ok: "fst (Enhanced_initialize (scripted []) restored_state)"
    by (simp add: Enhanced_initialize_def Let_def restored_state_def fresh_state_def
        stored_session_def key_defs getAuthToken_def getItem_def setBaseURL_def setToken_def
        isTokenExpired_def getTokenExpiry_def isTokenExpired_resume_def scripted_def)
  have fresh: "\<not> isInitialized (shared fresh_session)"
    by (simp add: fresh_session_def restored_state_def fresh_state_def)
  have tok: "getAuthToken (shared fresh_session) = JStr ''tok-1''"
    by (simp add: fresh_session_def restored_state_def fresh_state_def stored_session_def key_defs
        getAuthToken_def getItem_def)
  have inited: "isInitialized (shared (fresh_session\<lparr>shared := logged_in_state\<rparr>))"
    by (simp add: logged_in_state_def)
  note T1 = initialize_idempotent_after_success[where e = "scripted []" and s = restored_state
      and c = fresh_session]
  note T2 = initialize_idempotent_after_success[where e = "scripted []" and s = restored_state
      and c = "fresh_session\<lparr>shared := logged_in_state\<rparr>" and i = 1
      and evs = "[Resume 2, Settle network_failure]" and ts = "fst no_calls"]
  have a: "Enhanced_initialize (scripted []) (snd (Enhanced_initialize (scripted []) restored_state)) =
       (True, snd (Enhanced_initialize (scripted []) restored_state))"
    using T1 ok by blast
  have b: "fst (initialize_run (scripted []) ([Resume 2, Settle network_failure] @ [Call 1])
          (fst no_calls, fresh_session\<lparr>shared := logged_in_state\<rparr>)) 1 = Some (Returned True)"
    using T2 inited by blast
  have c: "initialize_call fresh_session =
       (AwaitToken (JStr ''tok-1''),
        fresh_session\<lparr>shared := setBaseURL config_baseURL (shared fresh_session)\<rparr>)"
    using T1 fresh tok by simp
  have s0: "\<not> isInitialized (shared stale_session)" "refreshPromise stale_session = None"
    "promises stale_session = 0" "ticks (shared stale_session) = 0"
    "sent (shared stale_session) = []"
    by (simp_all add: stale_session_def fresh_session_def restored_state_def fresh_state_def)
  have ne: "(1::nat) \<noteq> 2" by simp
  have stok: "getAuthToken (shared stale_session) = JStr ''tok-1''"
    by (simp add: stale_session_def fresh_session_def restored_state_def fresh_state_def
        stored_session_def key_defs getAuthToken_def getItem_def)
  then have tr: "truthy (getAuthToken (shared stale_session))" by simp
  have expiry: "getTokenExpiry (scripted []) (shared stale_session) = Some (Some 1577836800000)"
    by (simp add: stale_session_def fresh_session_def restored_state_def fresh_state_def
        stored_session_def key_defs getTokenExpiry_def getItem_def scripted_def)
  have clk: "clock (scripted []) 0 = 1767225600000" "clock (scripted []) (Suc 0) = 1767225600000"
    by (simp_all add: scripted_def)
  note T3 = initialize_idempotent_after_success[where e = "scripted []" and c = stale_session
      and i = 1 and j = 2 and ts = "fst no_calls", THEN conjunct2, THEN conjunct2, THEN conjunct2,
      THEN mp, OF conjI[OF s0(1) conjI[OF s0(2) conjI[OF ne tr]]], THEN conjunct1, rule_format,
      OF expiry]
  have d1: "fst (initialize_run (scripted []) [Call 1, Call 2, Resume 1, Resume 2, Resume 1, Resume 2]
          (fst no_calls, stale_session)) 1 = Some (AwaitRefresh 0)"
    using T3[THEN conjunct1] by (simp add: s0 clk)
  have d2: "fst (initialize_run (scripted []) [Call 1, Call 2, Resume 1, Resume 2, Resume 1, Resume 2]
          (fst no_calls, stale_session)) 2 = Some (AwaitRefresh 0)"
    using T3[THEN conjunct2, THEN conjunct1] by (simp add: s0 clk)
  have d3: "ticks (shared (snd (initialize_run (scripted [])
          [Call 1, Call 2, Resume 1, Resume 2, Resume 1, Resume 2]
          (fst no_calls, stale_session)))) = 2"
    using T3[THEN conjunct2, THEN conjunct2, THEN conjunct1] by (simp add: s0)
  have "sent (shared (snd (initialize_run (scripted [])
          [Call 1, Call 2, Resume 1, Resume 2, Resume 1, Resume 2]
          (fst no_calls, stale_session)))) =
        [build_request (scripted []) ''/refresh'' post_options
           (setToken (getAuthToken (shared stale_session))
              (setBaseURL config_baseURL (shared stale_session)))]"
    using T3[THEN conjunct2, THEN conjunct2, THEN conjunct2, THEN conjunct2] by (simp add: s0 clk)
  then have d4: "map url (sent (shared (snd (initialize_run (scripted [])
          [Call 1, Call 2, Resume 1, Resume 2, Resume 1, Resume 2]
          (fst no_calls, stale_session))))) = [''https://gu.mindware.com.mx/api/v1/refresh'']"
    by (simp add: url_build_request setToken_def setBaseURL_def config_baseURL_def)
  show ?thesis using ok a inited b fresh c s0(1,2) ne tr expiry d1 d2 d3 d4 by blast
qed
text \<open>
  C6 as stated fails: of two overlapping calls the second does not wait for the first.
  Each of them reads the token from the store and each of them checks the expiry.
\<close>

theorem overlapping_initialize_repeats_work:
  "fst (initialize_run (scripted []) [Call 1, Call 2] no_calls) 1 =
     Some (AwaitToken (JStr ''tok-1''))
   \<and> fst (initialize_run (scripted []) [Call 1, Call 2] no_calls) 2 =
       Some (AwaitToken (JStr ''tok-1''))
   \<and> fst (initialize_run (scripted [])
          [Call 1, Call 2, Resume 1, Resume 2, Resume 1, Resume 2] no_calls) 1 =
       Some (Returned True)
   \<and> fst (initialize_run (scripted [])
          [Call 1, Call 2, Resume 1, Resume 2, Resume 1, Resume 2] no_calls) 2 =
       Some (Returned True)
   \<and> ticks (shared (snd (initialize_run (scripted [])
          [Call 1, Call 2, Resume 1, Resume 2, Resume 1, Resume 2] no_calls))) = 2"
  by (simp add: no_calls_def initialize_call_def Let_def fresh_session_def restored_state_def
      fresh_state_def stored_session_def key_defs getAuthToken_def getItem_def setBaseURL_def
      setToken_def getTokenExpiry_def isTokenExpired_resume_def scripted_def)

end
